theory Spec2Isabelle
  imports Complex_Main
begin

section \<open>Python values, errors and numeric helpers\<close>

text \<open>
  The metrics engine of \<^verbatim>\<open>streamlit_app.py\<close> is embedded function by function.
  Python's \<^verbatim>\<open>int\<close> is \<^typ>\<open>int\<close>. A Python \<^verbatim>\<open>float\<close> that is returned as
  a float is idealised as a \<^typ>\<open>real\<close> (no rounding, no overflow, no NaN). Where a
  float is truncated to an integer by \<^verbatim>\<open>int(...)\<close>, the rounding of the float
  operations decides the integer; there the float operations are a parameter of the
  model (the record \<open>float_arith\<close> below), and what is proved holds for every choice
  of them. The scalar formulas whose behaviour depends on the dynamic type of their
  arguments (the \<^verbatim>\<open>isinstance\<close> guards of \<^verbatim>\<open>calculate_runway\<close> and
  \<^verbatim>\<open>calculate_burn_rate\<close>, and the unguarded \<^verbatim>\<open>calculate_mom_growth\<close>) are
  modelled over \<open>pyval\<close>, a datatype of the Python values that can reach them; the
  projectors are modelled at the types of their annotations, their loops as recursion
  over the list of months (\<^verbatim>\<open>range(months + 1)\<close>) with the loop state as last
  argument.
\<close>

datatype pyval = PInt int | PFloat real | PBool bool | PStr string | PNone

datatype error = ValueError string | TypeError | ZeroDivisionError | IndexError | OverflowError

text \<open>\<^verbatim>\<open>isinstance(x, (int, float))\<close>; \<^verbatim>\<open>bool\<close> is a subclass of \<^verbatim>\<open>int\<close>.\<close>

fun is_numeric :: "pyval \<Rightarrow> bool" where
  "is_numeric (PInt i) = True"
| "is_numeric (PFloat r) = True"
| "is_numeric (PBool b) = True"
| "is_numeric (PStr s) = False"
| "is_numeric PNone = False"

fun is_intlike :: "pyval \<Rightarrow> bool" where
  "is_intlike (PInt i) = True"
| "is_intlike (PBool b) = True"
| "is_intlike (PFloat r) = False"
| "is_intlike (PStr s) = False"
| "is_intlike PNone = False"

text \<open>The numeric value of a number; 0 on the values that are not numbers.\<close>

fun as_int :: "pyval \<Rightarrow> int" where
  "as_int (PInt i) = i"
| "as_int (PBool b) = (if b then 1 else 0)"
| "as_int (PFloat r) = 0"
| "as_int (PStr s) = 0"
| "as_int PNone = 0"

fun num :: "pyval \<Rightarrow> real" where
  "num (PInt i) = of_int i"
| "num (PFloat r) = r"
| "num (PBool b) = (if b then 1 else 0)"
| "num (PStr s) = 0"
| "num PNone = 0"

text \<open>\<^verbatim>\<open>a == b\<close>: numbers compare by value, a number never equals a string or None.\<close>

fun py_eq :: "pyval \<Rightarrow> pyval \<Rightarrow> bool" where
  "py_eq (PStr s) (PStr t) = (s = t)"
| "py_eq PNone PNone = True"
| "py_eq a b = (is_numeric a \<and> is_numeric b \<and> num a = num b)"

text \<open>\<^verbatim>\<open>a - b\<close>, \<^verbatim>\<open>a / b\<close> and \<^verbatim>\<open>a * b\<close> with the exceptions Python raises.\<close>

definition py_sub :: "pyval \<Rightarrow> pyval \<Rightarrow> error + pyval" where
  "py_sub a b =
     (if is_numeric a \<and> is_numeric b then
        (if is_intlike a \<and> is_intlike b then Inr (PInt (as_int a - as_int b))
         else Inr (PFloat (num a - num b)))
      else Inl TypeError)"

definition py_truediv :: "pyval \<Rightarrow> pyval \<Rightarrow> error + pyval" where
  "py_truediv a b =
     (if is_numeric a \<and> is_numeric b then
        (if num b = 0 then Inl ZeroDivisionError else Inr (PFloat (num a / num b)))
      else Inl TypeError)"

definition py_mul :: "pyval \<Rightarrow> pyval \<Rightarrow> error + pyval" where
  "py_mul a b =
     (if is_numeric a \<and> is_numeric b then
        (if is_intlike a \<and> is_intlike b then Inr (PInt (as_int a * as_int b))
         else Inr (PFloat (num a * num b)))
      else (case (a, b) of
              (PStr s, PInt n) \<Rightarrow> Inr (PStr (concat (replicate (nat n) s)))
            | (PStr s, PBool c) \<Rightarrow> Inr (PStr (if c then s else []))
            | (PInt n, PStr s) \<Rightarrow> Inr (PStr (concat (replicate (nat n) s)))
            | (PBool c, PStr s) \<Rightarrow> Inr (PStr (if c then s else []))
            | _ \<Rightarrow> Inl TypeError))"

text \<open>\<^verbatim>\<open>int(x)\<close> on a float truncates towards zero.\<close>

definition py_int :: "real \<Rightarrow> int" where
  "py_int x = (if 0 \<le> x then \<lfloor>x\<rfloor> else \<lceil>x\<rceil>)"

text \<open>
  The float operations that feed \<^verbatim>\<open>int(...)\<close>: \<^verbatim>\<open>x + y\<close>, \<^verbatim>\<open>x * y\<close>,
  \<^verbatim>\<open>x / y\<close>, \<^verbatim>\<open>x ** n\<close> for a loop index \<open>n\<close>, and the conversion of an
  \<^verbatim>\<open>int\<close> operand to a float. Their results are finite floats, read as reals.
\<close>

record float_arith =
  fadd :: "real \<Rightarrow> real \<Rightarrow> real"
  fmul :: "real \<Rightarrow> real \<Rightarrow> real"
  fdiv :: "real \<Rightarrow> real \<Rightarrow> real"
  fpow :: "real \<Rightarrow> nat \<Rightarrow> real"
  ffromint :: "int \<Rightarrow> real"

text \<open>
  The operations without rounding. They are the float operations wherever every
  operand and result is a float (small integers and binary fractions such as 0.5),
  which is the case at the concrete inputs evaluated below.
\<close>

definition exact_arith :: float_arith where
  "exact_arith = \<lparr>fadd = (\<lambda>x y. x + y), fmul = (\<lambda>x y. x * y), fdiv = (\<lambda>x y. x / y),
                   fpow = (\<lambda>x n. x ^ n), ffromint = of_int\<rparr>"

text \<open>\<^verbatim>\<open>range(n)\<close>: empty when \<open>n \<le> 0\<close>.\<close>

definition py_range :: "int \<Rightarrow> nat list" where
  "py_range n = [0..<nat n]"

text \<open>\<^verbatim>\<open>xs[i]\<close> for an index that is never negative; out of range raises.\<close>

definition py_index :: "'a list \<Rightarrow> nat \<Rightarrow> error + 'a" where
  "py_index xs i = (if i < length xs then Inr (xs ! i) else Inl IndexError)"


section \<open>Data model\<close>

record Scenario =
  name :: string
  revenue_multiplier :: real
  expense_multiplier :: real
  customer_growth_multiplier :: real
  color :: string

datatype GrowthModel = FIXED | LINEAR | EXPONENTIAL

datatype CustomerType = B2B | B2C

record CustomerMetrics =
  total :: int
  new :: int
  cac :: real
  churn_rate :: real
  type :: CustomerType

text \<open>A float result that may be \<^verbatim>\<open>float("inf")\<close>.\<close>

datatype pyfloat = Finite real | PosInf


section \<open>Scalar formulas\<close>

definition calculate_runway :: "pyval \<Rightarrow> pyval \<Rightarrow> error + pyval" where
  "calculate_runway cash_balance monthly_burn =
     (if \<not> is_numeric cash_balance \<or> \<not> is_numeric monthly_burn
      then Inl (ValueError ''Cash balance and monthly burn must be numeric values'')
      else if num monthly_burn \<le> 0 then Inr (PInt 0)
      else py_truediv cash_balance monthly_burn)"

definition calculate_burn_rate :: "pyval \<Rightarrow> pyval \<Rightarrow> error + pyval" where
  "calculate_burn_rate revenues expenses =
     (if \<not> is_numeric revenues \<or> \<not> is_numeric expenses
      then Inl (ValueError ''Revenues and expenses must be numeric values'')
      else py_sub expenses revenues)"

definition calculate_mom_growth :: "pyval \<Rightarrow> pyval \<Rightarrow> error + pyval" where
  "calculate_mom_growth current previous =
     (if py_eq previous (PInt 0) then Inr (PInt 0)
      else (case py_sub current previous of
              Inl e \<Rightarrow> Inl e
            | Inr d \<Rightarrow> (case py_truediv d previous of
                          Inl e \<Rightarrow> Inl e
                        | Inr q \<Rightarrow> py_mul q (PInt 100))))"

definition calculate_lifetime_from_churn :: "real \<Rightarrow> pyfloat" where
  "calculate_lifetime_from_churn churn_rate' =
     (if churn_rate' > 0 then Finite (1 / (churn_rate' / 100)) else PosInf)"


section \<open>The clock, the month labels and the caches\<close>

text \<open>
  \<^verbatim>\<open>generate_runway_projection\<close> and \<^verbatim>\<open>generate_scenario_projections\<close> label each
  period with \<^verbatim>\<open>(datetime.now() + timedelta(days=30 * month)).strftime("%Y-%m")\<close>.
  The current time is an input that is not among the arguments; in the bodies of the two
  functions it is the parameter \<open>now\<close>, the proleptic Gregorian ordinal of the current
  day (the result of \<^verbatim>\<open>date.toordinal()\<close>, day 1 being 0001-01-01): the label depends
  on the day only.
\<close>

definition year_month_of_ordinal :: "int \<Rightarrow> int \<times> int" where
  "year_month_of_ordinal n =
     (let z = n + 305;
          era = z div 146097;
          doe = z mod 146097;
          yoe = (doe - doe div 1460 + doe div 36524 - doe div 146096) div 365;
          doy = doe - (365 * yoe + yoe div 4 - yoe div 100);
          mp = (5 * doy + 2) div 153;
          m = (if mp < 10 then mp + 3 else mp - 9);
          y = yoe + era * 400 + (if m \<le> 2 then 1 else 0)
      in (y, m))"

definition digit_char :: "int \<Rightarrow> char" where
  "digit_char d = char_of (48 + d)"

text \<open>\<^verbatim>\<open>"%Y-%m"\<close> for the years 1000 to 9999: four digits, a dash, two digits.\<close>

definition strftime_ym :: "int \<Rightarrow> string" where
  "strftime_ym n =
     (let (y, m) = year_month_of_ordinal n
      in [digit_char (y div 1000 mod 10), digit_char (y div 100 mod 10),
          digit_char (y div 10 mod 10), digit_char (y mod 10), CHR ''-'',
          digit_char (m div 10 mod 10), digit_char (m mod 10)])"

text \<open>
  \<^verbatim>\<open>datetime.now() + timedelta(days=d)\<close> for \<open>d \<ge> 0\<close>: a \<^verbatim>\<open>timedelta\<close> holds at
  most 999999999 days and the calendar ends on 9999-12-31 (ordinal 3652059); beyond
  either the library raises OverflowError.
\<close>

definition add_days :: "int \<Rightarrow> int \<Rightarrow> error + int" where
  "add_days now d =
     (if d > 999999999 \<or> now + d > 3652059 then Inl OverflowError else Inr (now + d))"

text \<open>
  The list comprehension of the labels, as \<^verbatim>\<open>generate_runway_projection\<close> has it:
  the first label out of the calendar ends the call.
\<close>

fun date_labels :: "int \<Rightarrow> nat list \<Rightarrow> error + string list" where
  "date_labels now [] = Inr []"
| "date_labels now (month # rest) =
     (case add_days now (30 * int month) of
        Inl e \<Rightarrow> Inl e
      | Inr day \<Rightarrow>
          (case date_labels now rest of
             Inl e \<Rightarrow> Inl e
           | Inr dates \<Rightarrow> Inr (strftime_ym day # dates)))"

text \<open>
  Both functions are decorated with \<^verbatim>\<open>@st.cache_data\<close>: a call whose arguments are
  in the cache returns the stored result without running the body; otherwise the body
  runs and, unless it raises, its result is stored under the arguments. The state that
  the decorated functions see beyond their arguments is the \<open>world\<close>: the clock and
  one cache per function.
\<close>

type_synonym projection = "string \<times> string list \<times> real list \<times> string"

type_synonym runway_key = "real \<times> real \<times> real"

type_synonym scenario_key =
  "real \<times> real \<times> real \<times> int \<times> Scenario list \<times> GrowthModel \<times> real \<times> real"

record world =
  clock :: int
  runway_cache :: "runway_key \<rightharpoonup> string list \<times> real list"
  scenario_cache :: "scenario_key \<rightharpoonup> projection list"


section \<open>Projectors\<close>

text \<open>
  The body of \<^verbatim>\<open>generate_runway_projection\<close>. Its horizon \<^verbatim>\<open>int(runway_months)\<close>
  comes from the data (cash divided by burn), so the end of the calendar is within
  reach of ordinary inputs and is modelled.
\<close>

definition generate_runway_projection_body ::
  "int \<Rightarrow> real \<Rightarrow> real \<Rightarrow> real \<Rightarrow> error + (string list \<times> real list)" where
  "generate_runway_projection_body now cash_balance burn_rate runway_months =
     (let months = py_range (py_int runway_months + 1);
          projected_cash = map (\<lambda>month. cash_balance - burn_rate * real month) months
      in case date_labels now months of
           Inl e \<Rightarrow> Inl e
         | Inr dates \<Rightarrow> Inr (dates, projected_cash))"

definition generate_runway_projection ::
  "world \<Rightarrow> real \<Rightarrow> real \<Rightarrow> real \<Rightarrow> (error + (string list \<times> real list)) \<times> world" where
  "generate_runway_projection w cash_balance burn_rate runway_months =
     (case runway_cache w (cash_balance, burn_rate, runway_months) of
        Some stored \<Rightarrow> (Inr stored, w)
      | None \<Rightarrow>
          (case generate_runway_projection_body (clock w) cash_balance burn_rate
                  runway_months of
             Inl e \<Rightarrow> (Inl e, w)
           | Inr result \<Rightarrow>
               (Inr result,
                w\<lparr>runway_cache :=
                    (runway_cache w)((cash_balance, burn_rate, runway_months) \<mapsto> result)\<rparr>)))"

text \<open>The body of the loop of \<^verbatim>\<open>calculate_revenue_projection\<close>, before the clamp.\<close>

definition revenue_of_month :: "real \<Rightarrow> GrowthModel \<Rightarrow> real \<Rightarrow> real \<Rightarrow> nat \<Rightarrow> real" where
  "revenue_of_month initial_revenue model linear_coefficient exponential_base month =
     (if model = FIXED then initial_revenue
      else if model = LINEAR then
        (let monthly_increase = initial_revenue * (linear_coefficient / 100)
         in initial_revenue + monthly_increase * real month)
      else initial_revenue * (1 + exponential_base / 100) ^ month)"

fun revenue_loop ::
  "real \<Rightarrow> GrowthModel \<Rightarrow> real \<Rightarrow> real \<Rightarrow> nat list \<Rightarrow> real list \<Rightarrow> real list" where
  "revenue_loop initial_revenue model linear_coefficient exponential_base [] revenues = revenues"
| "revenue_loop initial_revenue model linear_coefficient exponential_base (month # rest) revenues =
     (let revenue = revenue_of_month initial_revenue model linear_coefficient exponential_base month
      in revenue_loop initial_revenue model linear_coefficient exponential_base rest
           (revenues @ [max 0 revenue]))"

definition calculate_revenue_projection ::
  "real \<Rightarrow> int \<Rightarrow> GrowthModel \<Rightarrow> real \<Rightarrow> real \<Rightarrow> real list" where
  "calculate_revenue_projection initial_revenue months model linear_coefficient exponential_base =
     revenue_loop initial_revenue model linear_coefficient exponential_base
       (py_range (months + 1)) []"

text \<open>
  The inner loop of \<^verbatim>\<open>calculate_customer_projection\<close>; the state is the list
  \<^verbatim>\<open>customers\<close> and the running \<^verbatim>\<open>current_customers\<close>. The Exponential branch is
  \<^verbatim>\<open>int(metrics.total * ((1 + growth_rate) ** month))\<close> in the float operations
  \<open>fl\<close>.
\<close>

fun customer_loop ::
  "float_arith \<Rightarrow> CustomerMetrics \<Rightarrow> GrowthModel \<Rightarrow> int \<Rightarrow> real \<Rightarrow> nat list
     \<Rightarrow> int list \<times> int \<Rightarrow> int list \<times> int" where
  "customer_loop fl metrics model linear_growth exponential_growth []
     (customers, current_customers) = (customers, current_customers)"
| "customer_loop fl metrics model linear_growth exponential_growth (month # rest)
     (customers, current_customers) =
     customer_loop fl metrics model linear_growth exponential_growth rest
       (customers @ [current_customers],
        (if model = FIXED then current_customers + new metrics
         else if model = LINEAR then
           current_customers + (new metrics + linear_growth * int month)
         else (let growth_rate = fdiv fl exponential_growth 100
               in py_int (fmul fl (ffromint fl (total metrics))
                            (fpow fl (fadd fl 1 growth_rate) month)))))"

fun projection_loop ::
  "float_arith \<Rightarrow> int \<Rightarrow> GrowthModel \<Rightarrow> int \<Rightarrow> real \<Rightarrow> CustomerMetrics list
     \<Rightarrow> (CustomerType \<rightharpoonup> int list) \<Rightarrow> (CustomerType \<rightharpoonup> int list)" where
  "projection_loop fl months model linear_growth exponential_growth [] projections =
     projections"
| "projection_loop fl months model linear_growth exponential_growth (metrics # rest)
     projections =
     (let (customers, current_customers) =
            customer_loop fl metrics model linear_growth exponential_growth
              (py_range (months + 1)) ([], total metrics)
      in projection_loop fl months model linear_growth exponential_growth rest
           (projections(type metrics \<mapsto> customers)))"

definition calculate_customer_projection ::
  "float_arith \<Rightarrow> CustomerMetrics \<Rightarrow> CustomerMetrics \<Rightarrow> int \<Rightarrow> GrowthModel \<Rightarrow> int \<Rightarrow> real
     \<Rightarrow> (CustomerType \<rightharpoonup> int list)" where
  "calculate_customer_projection fl b2b_metrics b2c_metrics months model linear_growth
     exponential_growth =
     projection_loop fl months model linear_growth exponential_growth
       [b2b_metrics, b2c_metrics] Map.empty"

text \<open>
  The loop of \<^verbatim>\<open>calculate_customer_flow\<close>; the state is the three lists and the
  running \<^verbatim>\<open>current_total\<close>. The three truncations
  \<^verbatim>\<open>int(new_customers * (1 + (linear_growth / 100) * month))\<close>,
  \<^verbatim>\<open>int(new_customers * ((1 + growth_rate) ** month))\<close> and
  \<^verbatim>\<open>int(current_total * (churn_rate / 100))\<close> are taken in the float operations
  \<open>fl\<close>.
\<close>

definition new_of_month ::
  "float_arith \<Rightarrow> int \<Rightarrow> GrowthModel \<Rightarrow> real \<Rightarrow> real \<Rightarrow> nat \<Rightarrow> int" where
  "new_of_month fl new_customers growth_model linear_growth exponential_growth month =
     (if growth_model = FIXED then new_customers
      else if growth_model = LINEAR then
        py_int (fmul fl (ffromint fl new_customers)
                  (fadd fl 1 (fmul fl (fdiv fl linear_growth 100) (ffromint fl (int month)))))
      else (let growth_rate = fdiv fl exponential_growth 100
            in py_int (fmul fl (ffromint fl new_customers)
                         (fpow fl (fadd fl 1 growth_rate) month))))"

definition churned_of_total :: "float_arith \<Rightarrow> int \<Rightarrow> real \<Rightarrow> int" where
  "churned_of_total fl current_total churn_rate' =
     py_int (fmul fl (ffromint fl current_total) (fdiv fl churn_rate' 100))"

fun flow_loop ::
  "float_arith \<Rightarrow> int \<Rightarrow> real \<Rightarrow> GrowthModel \<Rightarrow> real \<Rightarrow> real \<Rightarrow> nat list
     \<Rightarrow> int list \<times> int list \<times> int list \<times> int \<Rightarrow> int list \<times> int list \<times> int list \<times> int" where
  "flow_loop fl new_customers churn_rate' growth_model linear_growth exponential_growth []
     (new_per_month, churned_per_month, total_customers, current_total) =
     (new_per_month, churned_per_month, total_customers, current_total)"
| "flow_loop fl new_customers churn_rate' growth_model linear_growth exponential_growth
     (month # rest) (new_per_month, churned_per_month, total_customers, current_total) =
     (let new_this_month =
            new_of_month fl new_customers growth_model linear_growth exponential_growth month;
          churned_this_month = churned_of_total fl current_total churn_rate';
          current_total = current_total + new_this_month - churned_this_month;
          current_total = max 0 current_total
      in flow_loop fl new_customers churn_rate' growth_model linear_growth exponential_growth
           rest
           (new_per_month @ [new_this_month], churned_per_month @ [churned_this_month],
            total_customers @ [current_total], current_total))"

definition calculate_customer_flow ::
  "float_arith \<Rightarrow> int \<Rightarrow> int \<Rightarrow> real \<Rightarrow> int \<Rightarrow> GrowthModel \<Rightarrow> real \<Rightarrow> real
     \<Rightarrow> int list \<times> int list \<times> int list" where
  "calculate_customer_flow fl initial_customers new_customers churn_rate' months growth_model
     linear_growth exponential_growth =
     (let (new_per_month, churned_per_month, total_customers, current_total) =
            flow_loop fl new_customers churn_rate' growth_model linear_growth
              exponential_growth (py_range (months + 1)) ([], [], [], initial_customers)
      in (new_per_month, churned_per_month, total_customers))"

text \<open>
  The body of \<^verbatim>\<open>generate_scenario_projections\<close>: the inner loop over the months
  carries \<^verbatim>\<open>projected_cash\<close> and \<^verbatim>\<open>current_cash\<close>, the outer loop over the
  scenarios carries \<^verbatim>\<open>projections\<close>. An exception of \<^verbatim>\<open>revenues[month]\<close> or of
  \<^verbatim>\<open>calculate_burn_rate\<close> ends the call. The calendar is left unbounded here: for a
  current day before the year 7000 the labels leave the calendar only at horizons
  where \<^verbatim>\<open>1.02 ** month\<close> has left the float range as well, and these horizons are
  outside the idealisation of floats in any case.
\<close>

fun cash_loop ::
  "real list \<Rightarrow> real \<Rightarrow> nat list \<Rightarrow> real list \<times> real \<Rightarrow> error + (real list \<times> real)" where
  "cash_loop revenues adjusted_expenses [] (projected_cash, current_cash) =
     Inr (projected_cash, current_cash)"
| "cash_loop revenues adjusted_expenses (month # rest) (projected_cash, current_cash) =
     (case py_index revenues month of
        Inl e \<Rightarrow> Inl e
      | Inr revenue \<Rightarrow>
          (case calculate_burn_rate (PFloat revenue)
                  (PFloat (adjusted_expenses * 1.02 ^ month)) of
             Inl e \<Rightarrow> Inl e
           | Inr monthly_burn \<Rightarrow>
               cash_loop revenues adjusted_expenses rest
                 (projected_cash @ [current_cash], current_cash - num monthly_burn)))"

fun scenario_loop ::
  "int \<Rightarrow> real \<Rightarrow> real \<Rightarrow> real \<Rightarrow> int \<Rightarrow> GrowthModel \<Rightarrow> real \<Rightarrow> real
     \<Rightarrow> Scenario list \<Rightarrow> projection list \<Rightarrow> error + projection list" where
  "scenario_loop now cash_balance monthly_revenue monthly_expenses months revenue_model
     linear_coefficient exponential_base [] projections = Inr projections"
| "scenario_loop now cash_balance monthly_revenue monthly_expenses months revenue_model
     linear_coefficient exponential_base (scenario # rest) projections =
     (let adjusted_initial_revenue = monthly_revenue * revenue_multiplier scenario;
          adjusted_expenses = monthly_expenses * expense_multiplier scenario;
          revenues = calculate_revenue_projection adjusted_initial_revenue months revenue_model
                       (linear_coefficient * revenue_multiplier scenario)
                       (exponential_base * revenue_multiplier scenario);
          dates = map (\<lambda>month. strftime_ym (now + 30 * int month)) (py_range (months + 1))
      in case cash_loop revenues adjusted_expenses (py_range (months + 1)) ([], cash_balance) of
           Inl e \<Rightarrow> Inl e
         | Inr (projected_cash, current_cash) \<Rightarrow>
             scenario_loop now cash_balance monthly_revenue monthly_expenses months
               revenue_model linear_coefficient exponential_base rest
               (projections @ [(name scenario, dates, projected_cash, color scenario)]))"

definition generate_scenario_projections_body ::
  "int \<Rightarrow> real \<Rightarrow> real \<Rightarrow> real \<Rightarrow> int \<Rightarrow> Scenario list \<Rightarrow> GrowthModel \<Rightarrow> real \<Rightarrow> real
     \<Rightarrow> error + projection list" where
  "generate_scenario_projections_body now cash_balance monthly_revenue monthly_expenses months
     scenarios revenue_model linear_coefficient exponential_base =
     scenario_loop now cash_balance monthly_revenue monthly_expenses months revenue_model
       linear_coefficient exponential_base scenarios []"

definition generate_scenario_projections ::
  "world \<Rightarrow> real \<Rightarrow> real \<Rightarrow> real \<Rightarrow> int \<Rightarrow> Scenario list \<Rightarrow> GrowthModel \<Rightarrow> real \<Rightarrow> real
     \<Rightarrow> (error + projection list) \<times> world" where
  "generate_scenario_projections w cash_balance monthly_revenue monthly_expenses months
     scenarios revenue_model linear_coefficient exponential_base =
     (let key = (cash_balance, monthly_revenue, monthly_expenses, months, scenarios,
                 revenue_model, linear_coefficient, exponential_base)
      in case scenario_cache w key of
           Some stored \<Rightarrow> (Inr stored, w)
         | None \<Rightarrow>
             (case generate_scenario_projections_body (clock w) cash_balance monthly_revenue
                     monthly_expenses months scenarios revenue_model linear_coefficient
                     exponential_base of
                Inl e \<Rightarrow> (Inl e, w)
              | Inr result \<Rightarrow> (Inr result, w\<lparr>scenario_cache := (scenario_cache w)(key \<mapsto> result)\<rparr>)))"


section \<open>Calls in a running process\<close>

text \<open>
  The worlds a process can be in: it starts with empty caches, time passes (the clock
  never runs backwards), and the two decorated functions are called.
\<close>

inductive reachable :: "world \<Rightarrow> bool" where
  start: "reachable \<lparr>clock = t, runway_cache = Map.empty, scenario_cache = Map.empty\<rparr>"
| tick: "reachable w \<Longrightarrow> clock w \<le> t \<Longrightarrow> reachable (w\<lparr>clock := t\<rparr>)"
| runway_call:
    "reachable w \<Longrightarrow>
     reachable (snd (generate_runway_projection w cash_balance burn_rate runway_months))"
| scenario_call:
    "reachable w \<Longrightarrow>
     reachable (snd (generate_scenario_projections w cash_balance monthly_revenue
        monthly_expenses months scenarios revenue_model linear_coefficient exponential_base))"

text \<open>A call of one of the five projectors with its arguments, and what it returns.\<close>

datatype call =
    RevenueProjection real int GrowthModel real real
  | CustomerProjection CustomerMetrics CustomerMetrics int GrowthModel int real
  | CustomerFlow int int real int GrowthModel real real
  | ScenarioProjections real real real int "Scenario list" GrowthModel real real
  | RunwayProjection real real real

datatype outcome =
    Revenues "real list"
  | Customers "CustomerType \<rightharpoonup> int list"
  | Flow "int list \<times> int list \<times> int list"
  | Scenarios "error + projection list"
  | Runway "error + (string list \<times> real list)"

fun run :: "float_arith \<Rightarrow> world \<Rightarrow> call \<Rightarrow> outcome \<times> world" where
  "run fl w (RevenueProjection initial_revenue months model linear_coefficient
       exponential_base) =
     (Revenues (calculate_revenue_projection initial_revenue months model linear_coefficient
        exponential_base), w)"
| "run fl w (CustomerProjection b2b_metrics b2c_metrics months model linear_growth
       exponential_growth) =
     (Customers (calculate_customer_projection fl b2b_metrics b2c_metrics months model
        linear_growth exponential_growth), w)"
| "run fl w (CustomerFlow initial_customers new_customers churn_rate' months growth_model
       linear_growth exponential_growth) =
     (Flow (calculate_customer_flow fl initial_customers new_customers churn_rate' months
        growth_model linear_growth exponential_growth), w)"
| "run fl w (ScenarioProjections cash_balance monthly_revenue monthly_expenses months
       scenarios revenue_model linear_coefficient exponential_base) =
     (let (result, w') = generate_scenario_projections w cash_balance monthly_revenue
                           monthly_expenses months scenarios revenue_model
                           linear_coefficient exponential_base
      in (Scenarios result, w'))"
| "run fl w (RunwayProjection cash_balance burn_rate runway_months) =
     (let (result, w') = generate_runway_projection w cash_balance burn_rate runway_months
      in (Runway result, w'))"

text \<open>The projectors that are not decorated and do not read the clock.\<close>

fun undecorated :: "call \<Rightarrow> bool" where
  "undecorated (ScenarioProjections cash_balance monthly_revenue monthly_expenses months
      scenarios revenue_model linear_coefficient exponential_base) = False"
| "undecorated (RunwayProjection cash_balance burn_rate runway_months) = False"
| "undecorated c = True"


section \<open>Closed forms of the loop states\<close>

text \<open>
  Auxiliary functions read off the loop bodies above; the lemmas below show that the
  loops compute them. \<open>customers_at n\<close> is \<^verbatim>\<open>current_customers\<close> at the start of
  iteration \<open>n\<close> of the inner loop of \<^verbatim>\<open>calculate_customer_projection\<close>, and
  \<open>customer_series\<close> is the list the loop records.
\<close>

fun customers_at ::
  "float_arith \<Rightarrow> CustomerMetrics \<Rightarrow> GrowthModel \<Rightarrow> int \<Rightarrow> real \<Rightarrow> nat \<Rightarrow> int" where
  "customers_at fl metrics model lg eg 0 = total metrics"
| "customers_at fl metrics model lg eg (Suc n) =
     (if model = FIXED then customers_at fl metrics model lg eg n + new metrics
      else if model = LINEAR then
        customers_at fl metrics model lg eg n + (new metrics + lg * int n)
      else py_int (fmul fl (ffromint fl (total metrics))
                     (fpow fl (fadd fl 1 (fdiv fl eg 100)) n)))"

definition customer_series ::
  "float_arith \<Rightarrow> CustomerMetrics \<Rightarrow> int \<Rightarrow> GrowthModel \<Rightarrow> int \<Rightarrow> real \<Rightarrow> int list" where
  "customer_series fl metrics months model lg eg =
     map (customers_at fl metrics model lg eg) (py_range (months + 1))"

text \<open>
  \<open>total_at n\<close> is \<^verbatim>\<open>current_total\<close> of \<^verbatim>\<open>calculate_customer_flow\<close> after \<open>n\<close>
  iterations.
\<close>

fun total_at ::
  "float_arith \<Rightarrow> int \<Rightarrow> int \<Rightarrow> real \<Rightarrow> GrowthModel \<Rightarrow> real \<Rightarrow> real \<Rightarrow> nat \<Rightarrow> int" where
  "total_at fl initial nc cr gm lg eg 0 = initial"
| "total_at fl initial nc cr gm lg eg (Suc n) =
     max 0 (total_at fl initial nc cr gm lg eg n + new_of_month fl nc gm lg eg n
            - churned_of_total fl (total_at fl initial nc cr gm lg eg n) cr)"

text \<open>
  \<open>scenario_cash\<close> is \<^verbatim>\<open>projected_cash\<close> of one scenario: the starting cash minus
  the burn of the periods before \<open>m\<close>.
\<close>

definition scenario_cash ::
  "real \<Rightarrow> real \<Rightarrow> real \<Rightarrow> int \<Rightarrow> GrowthModel \<Rightarrow> real \<Rightarrow> real \<Rightarrow> Scenario \<Rightarrow> real list" where
  "scenario_cash cash mrev mexp months model lc eb s =
     map (\<lambda>m. cash - (\<Sum>k<m. mexp * expense_multiplier s * 1.02 ^ k
                 - calculate_revenue_projection (mrev * revenue_multiplier s) months model
                     (lc * revenue_multiplier s) (eb * revenue_multiplier s) ! k))
       (py_range (months + 1))"


section \<open>The loops compute their closed forms\<close>

lemma py_int_of_int: "py_int (of_int i) = i"
  by (simp add: py_int_def)

lemma length_py_range: "length (py_range n) = nat n"
  by (simp add: py_range_def)

lemma nth_py_range: "m < nat n \<Longrightarrow> py_range n ! m = m"
  by (simp add: py_range_def)

lemma revenue_loop_map:
  "revenue_loop R model lc eb ms acc =
     acc @ map (\<lambda>m. max 0 (revenue_of_month R model lc eb m)) ms"
  by (induction ms arbitrary: acc) simp_all

lemma calculate_revenue_projection_map:
  "calculate_revenue_projection R months model lc eb =
     map (\<lambda>m. max 0 (revenue_of_month R model lc eb m)) (py_range (months + 1))"
  by (simp add: calculate_revenue_projection_def revenue_loop_map)

lemma length_calculate_revenue_projection:
  "length (calculate_revenue_projection R months model lc eb) = nat (months + 1)"
  by (simp add: calculate_revenue_projection_map length_py_range)

lemma nth_calculate_revenue_projection:
  "m < nat (months + 1) \<Longrightarrow>
     calculate_revenue_projection R months model lc eb ! m =
       max 0 (revenue_of_month R model lc eb m)"
  by (simp add: calculate_revenue_projection_map length_py_range nth_py_range)

lemma customer_loop_append:
  "customer_loop fl metrics model lg eg (xs @ ys) st =
     customer_loop fl metrics model lg eg ys (customer_loop fl metrics model lg eg xs st)"
proof (induction xs arbitrary: st)
  case Nil
  then show ?case by (cases st) simp
next
  case (Cons x xs)
  then show ?case by (cases st) simp
qed

lemma customer_loop_upt:
  "customer_loop fl metrics model lg eg [0..<n] ([], total metrics) =
     (map (customers_at fl metrics model lg eg) [0..<n], customers_at fl metrics model lg eg n)"
proof (induction n)
  case 0
  show ?case by simp
next
  case (Suc n)
  have "customer_loop fl metrics model lg eg [0..<Suc n] ([], total metrics) =
          customer_loop fl metrics model lg eg [n]
            (map (customers_at fl metrics model lg eg) [0..<n],
             customers_at fl metrics model lg eg n)"
    using Suc.IH by (simp add: customer_loop_append)
  then show ?case by simp
qed

lemma customers_at_fixed:
  "customers_at fl metrics FIXED lg eg n = total metrics + new metrics * int n"
  by (induction n) (simp_all add: algebra_simps)

lemma customers_at_linear:
  "customers_at fl metrics LINEAR lg eg n =
     total metrics + new metrics * int n + lg * (int n * (int n - 1) div 2)"
proof (induction n)
  case 0
  show ?case by simp
next
  case (Suc n)
  have ev: "even (int n * (int n - 1))" by simp
  have "(int n * (int n - 1)) div 2 + int n = ((1 + int n) * int n) div 2"
    using ev by (auto simp: algebra_simps elim!: evenE)
  then have "lg * (int n * (int n - 1) div 2) + lg * int n = lg * ((1 + int n) * int n div 2)"
    by (metis distrib_left)
  with Suc show ?case by (simp add: algebra_simps)
qed

lemma customers_at_exponential:
  "customers_at fl metrics EXPONENTIAL lg eg (Suc n) =
     py_int (fmul fl (ffromint fl (total metrics)) (fpow fl (fadd fl 1 (fdiv fl eg 100)) n))"
  by simp

lemma customers_at_churn_rate:
  "customers_at fl (metrics\<lparr>churn_rate := c\<rparr>) model lg eg n =
     customers_at fl metrics model lg eg n"
  by (induction n) auto

lemma calculate_customer_projection_map:
  "calculate_customer_projection fl b2b b2c months model lg eg =
     [type b2b \<mapsto> customer_series fl b2b months model lg eg,
      type b2c \<mapsto> customer_series fl b2c months model lg eg]"
  by (simp add: calculate_customer_projection_def customer_series_def py_range_def
      customer_loop_upt)

lemma calculate_customer_projection_lookup:
  assumes "metrics = b2c \<or> (metrics = b2b \<and> type b2b \<noteq> type b2c)"
  shows "calculate_customer_projection fl b2b b2c months model lg eg (type metrics) =
           Some (customer_series fl metrics months model lg eg)"
  using assms by (auto simp: calculate_customer_projection_map)

lemma length_customer_series:
  "length (customer_series fl metrics months model lg eg) = nat (months + 1)"
  by (simp add: customer_series_def length_py_range)

lemma nth_customer_series:
  "m < nat (months + 1) \<Longrightarrow>
     customer_series fl metrics months model lg eg ! m = customers_at fl metrics model lg eg m"
  by (simp add: customer_series_def length_py_range nth_py_range)

lemma customer_series_churn_rate:
  "customer_series fl (metrics\<lparr>churn_rate := c\<rparr>) months model lg eg =
     customer_series fl metrics months model lg eg"
  by (simp add: customer_series_def customers_at_churn_rate)

lemma flow_loop_append:
  "flow_loop fl nc cr gm lg eg (xs @ ys) st =
     flow_loop fl nc cr gm lg eg ys (flow_loop fl nc cr gm lg eg xs st)"
proof (induction xs arbitrary: st)
  case Nil
  then show ?case by (cases st) simp
next
  case (Cons x xs)
  obtain a b c d where st: "st = (a, b, c, d)" by (cases st)
  show ?case unfolding st by (simp add: Let_def Cons.IH)
qed

lemma flow_loop_upt:
  "flow_loop fl nc cr gm lg eg [0..<n] ([], [], [], initial) =
     (map (new_of_month fl nc gm lg eg) [0..<n],
      map (\<lambda>m. churned_of_total fl (total_at fl initial nc cr gm lg eg m) cr) [0..<n],
      map (\<lambda>m. total_at fl initial nc cr gm lg eg (Suc m)) [0..<n],
      total_at fl initial nc cr gm lg eg n)"
proof (induction n)
  case 0
  show ?case by simp
next
  case (Suc n)
  show ?case
    by (simp add: flow_loop_append Suc.IH Let_def)
qed

lemma calculate_customer_flow_map:
  "calculate_customer_flow fl initial nc cr months gm lg eg =
     (map (new_of_month fl nc gm lg eg) (py_range (months + 1)),
      map (\<lambda>m. churned_of_total fl (total_at fl initial nc cr gm lg eg m) cr)
        (py_range (months + 1)),
      map (\<lambda>m. total_at fl initial nc cr gm lg eg (Suc m)) (py_range (months + 1)))"
  by (simp add: calculate_customer_flow_def py_range_def flow_loop_upt)

lemma burn_rate_floats:
  "calculate_burn_rate (PFloat r) (PFloat e) = Inr (PFloat (e - r))"
  by (simp add: calculate_burn_rate_def py_sub_def)

lemma cash_loop_append:
  "cash_loop revenues adj (xs @ ys) st =
     (case cash_loop revenues adj xs st of Inl e \<Rightarrow> Inl e
      | Inr st' \<Rightarrow> cash_loop revenues adj ys st')"
proof (induction xs arbitrary: st)
  case Nil
  then show ?case by (cases st) simp
next
  case (Cons x xs)
  obtain pc cc where st: "st = (pc, cc)" by (cases st)
  show ?case unfolding st
    by (simp add: Cons.IH burn_rate_floats split: sum.splits)
qed

lemma cash_loop_upt:
  assumes "n \<le> length revenues"
  shows "cash_loop revenues adj [0..<n] ([], cash) =
     Inr (map (\<lambda>m. cash - (\<Sum>k<m. adj * 1.02 ^ k - revenues ! k)) [0..<n],
          cash - (\<Sum>k<n. adj * 1.02 ^ k - revenues ! k))"
  using assms
proof (induction n)
  case 0
  show ?case by simp
next
  case (Suc n)
  then have "n < length revenues" and IH: "cash_loop revenues adj [0..<n] ([], cash) =
     Inr (map (\<lambda>m. cash - (\<Sum>k<m. adj * 1.02 ^ k - revenues ! k)) [0..<n],
          cash - (\<Sum>k<n. adj * 1.02 ^ k - revenues ! k))"
    by simp_all
  then show ?case
    by (simp add: cash_loop_append py_index_def burn_rate_floats)
qed

lemma scenario_loop_map:
  "scenario_loop now cash mrev mexp months model lc eb scenarios acc =
     Inr (acc @ map (\<lambda>s. (name s,
                         map (\<lambda>month. strftime_ym (now + 30 * int month)) (py_range (months + 1)),
                         scenario_cash cash mrev mexp months model lc eb s,
                         color s)) scenarios)"
proof (induction scenarios arbitrary: acc)
  case Nil
  show ?case by simp
next
  case (Cons s rest)
  have "cash_loop (calculate_revenue_projection (mrev * revenue_multiplier s) months model
                     (lc * revenue_multiplier s) (eb * revenue_multiplier s))
          (mexp * expense_multiplier s) (py_range (months + 1)) ([], cash) =
        Inr (scenario_cash cash mrev mexp months model lc eb s,
             cash - (\<Sum>k<nat (months + 1). mexp * expense_multiplier s * 1.02 ^ k
                 - calculate_revenue_projection (mrev * revenue_multiplier s) months model
                     (lc * revenue_multiplier s) (eb * revenue_multiplier s) ! k))"
    unfolding py_range_def scenario_cash_def
    by (rule cash_loop_upt) (simp add: length_calculate_revenue_projection)
  then show ?case
    by (simp add: Cons.IH Let_def)
qed

lemma generate_scenario_projections_body_map:
  "generate_scenario_projections_body now cash mrev mexp months scenarios model lc eb =
     Inr (map (\<lambda>s. (name s,
                     map (\<lambda>month. strftime_ym (now + 30 * int month)) (py_range (months + 1)),
                     scenario_cash cash mrev mexp months model lc eb s,
                     color s)) scenarios)"
  by (simp add: generate_scenario_projections_body_def scenario_loop_map)

lemma length_scenario_cash:
  "length (scenario_cash cash mrev mexp months model lc eb s) = nat (months + 1)"
  by (simp add: scenario_cash_def length_py_range)

lemma nth_scenario_cash:
  "m < nat (months + 1) \<Longrightarrow>
   scenario_cash cash mrev mexp months model lc eb s ! m =
     cash - (\<Sum>k<m. mexp * expense_multiplier s * 1.02 ^ k
               - calculate_revenue_projection (mrev * revenue_multiplier s) months model
                   (lc * revenue_multiplier s) (eb * revenue_multiplier s) ! k)"
  by (simp add: scenario_cash_def length_py_range nth_py_range)


section \<open>The caches hold results of the bodies\<close>

lemma date_labels_Inr:
  "date_labels now ms = Inr ds \<Longrightarrow> ds = map (\<lambda>month. strftime_ym (now + 30 * int month)) ms"
proof (induction ms arbitrary: ds)
  case Nil
  then show ?case by simp
next
  case (Cons m ms)
  then show ?case
    by (auto simp: add_days_def split: if_splits sum.splits)
qed

lemma date_labels_Inl:
  "date_labels now ms = Inl e \<Longrightarrow> now \<le> t \<Longrightarrow> e = OverflowError \<and> date_labels t ms = Inl e"
proof (induction ms)
  case Nil
  then show ?case by simp
next
  case (Cons m ms)
  show ?case
  proof (cases "add_days now (30 * int m)")
    case (Inl e')
    with Cons.prems show ?thesis
      by (auto simp: add_days_def split: if_splits)
  next
    case (Inr d)
    with Cons.prems have "date_labels now ms = Inl e"
      by (auto split: sum.splits)
    with Cons.IH Cons.prems have "e = OverflowError" "date_labels t ms = Inl e"
      by simp_all
    then show ?thesis
      by (auto simp: add_days_def split: sum.splits)
  qed
qed

lemma runway_body_Inr:
  assumes "generate_runway_projection_body now cash_balance burn_rate runway_months = Inr (ds, cs)"
  shows "ds = map (\<lambda>month. strftime_ym (now + 30 * int month)) (py_range (py_int runway_months + 1))"
    and "cs = map (\<lambda>month. cash_balance - burn_rate * real month) (py_range (py_int runway_months + 1))"
  using assms
  by (auto simp: generate_runway_projection_body_def Let_def dest: date_labels_Inr
      split: sum.splits)

lemma runway_body_Inl:
  assumes "generate_runway_projection_body now cash_balance burn_rate runway_months = Inl e"
    and "now \<le> t"
  shows "generate_runway_projection_body t cash_balance burn_rate runway_months = Inl e"
  using assms
  by (auto simp: generate_runway_projection_body_def Let_def dest: date_labels_Inl
      split: sum.splits)

lemma reachable_caches:
  assumes "reachable w"
  shows "(\<forall>c b r res. runway_cache w (c, b, r) = Some res \<longrightarrow>
            (\<exists>t. generate_runway_projection_body t c b r = Inr res))
       \<and> (\<forall>c mr me mo ss md lc eb res.
            scenario_cache w (c, mr, me, mo, ss, md, lc, eb) = Some res \<longrightarrow>
            (\<exists>t. generate_scenario_projections_body t c mr me mo ss md lc eb = Inr res))"
  using assms
proof (induction rule: reachable.induct)
  case (start t)
  show ?case by simp
next
  case (tick w t)
  then show ?case by simp
next
  case (runway_call w cash_balance burn_rate runway_months)
  then show ?case
    by (auto simp: generate_runway_projection_def split: option.splits sum.splits if_splits)
next
  case (scenario_call w cash_balance monthly_revenue monthly_expenses months scenarios
      revenue_model linear_coefficient exponential_base)
  then show ?case
    by (auto simp: generate_scenario_projections_def Let_def
        split: option.splits sum.splits if_splits)
qed

lemma scenario_cached_result:
  assumes "reachable w"
  shows "\<exists>t. fst (generate_scenario_projections w c mr me mo ss md lc eb) =
              generate_scenario_projections_body t c mr me mo ss md lc eb"
proof (cases "scenario_cache w (c, mr, me, mo, ss, md, lc, eb)")
  case None
  then have "fst (generate_scenario_projections w c mr me mo ss md lc eb) =
               generate_scenario_projections_body (clock w) c mr me mo ss md lc eb"
    by (simp add: generate_scenario_projections_def split: sum.splits)
  then show ?thesis by blast
next
  case (Some res)
  then obtain t where "generate_scenario_projections_body t c mr me mo ss md lc eb = Inr res"
    using reachable_caches [OF assms] by blast
  with Some have "fst (generate_scenario_projections w c mr me mo ss md lc eb) =
                    generate_scenario_projections_body t c mr me mo ss md lc eb"
    by (simp add: generate_scenario_projections_def)
  then show ?thesis by blast
qed

lemma runway_cached_result:
  assumes "reachable w"
  shows "\<exists>t. fst (generate_runway_projection w c b r) = generate_runway_projection_body t c b r"
proof (cases "runway_cache w (c, b, r)")
  case None
  then have "fst (generate_runway_projection w c b r) =
               generate_runway_projection_body (clock w) c b r"
    by (simp add: generate_runway_projection_def split: sum.splits)
  then show ?thesis by blast
next
  case (Some res)
  then obtain t where "generate_runway_projection_body t c b r = Inr res"
    using reachable_caches [OF assms] by blast
  with Some have "fst (generate_runway_projection w c b r) =
                    generate_runway_projection_body t c b r"
    by (simp add: generate_runway_projection_def)
  then show ?thesis by blast
qed

lemma runway_repeat:
  assumes "clock w \<le> t"
  shows "fst (generate_runway_projection
               ((snd (generate_runway_projection w c b r))\<lparr>clock := t\<rparr>) c b r) =
         fst (generate_runway_projection w c b r)"
proof (cases "runway_cache w (c, b, r)")
  case (Some res)
  then show ?thesis by (simp add: generate_runway_projection_def)
next
  case None
  show ?thesis
  proof (cases "generate_runway_projection_body (clock w) c b r")
    case (Inl e)
    then have "generate_runway_projection_body t c b r = Inl e"
      using assms by (rule runway_body_Inl)
    with None Inl show ?thesis by (simp add: generate_runway_projection_def)
  next
    case (Inr res)
    with None show ?thesis by (simp add: generate_runway_projection_def)
  qed
qed

lemma scenario_repeat:
  "fst (generate_scenario_projections
          ((snd (generate_scenario_projections w c mr me mo ss md lc eb))\<lparr>clock := t\<rparr>)
          c mr me mo ss md lc eb) =
   fst (generate_scenario_projections w c mr me mo ss md lc eb)"
proof (cases "scenario_cache w (c, mr, me, mo, ss, md, lc, eb)")
  case (Some res)
  then show ?thesis by (simp add: generate_scenario_projections_def)
next
  case None
  then show ?thesis
    by (simp add: generate_scenario_projections_def generate_scenario_projections_body_map)
qed

lemma run_repeat:
  assumes "clock w \<le> t"
  shows "fst (run fl ((snd (run fl w c))\<lparr>clock := t\<rparr>) c) = fst (run fl w c)"
proof (cases c)
  case (ScenarioProjections c mr me mo ss md lc eb)
  then show ?thesis
    using scenario_repeat [where w = w and t = t]
    by (simp add: split_beta)
next
  case (RunwayProjection c b r)
  then show ?thesis
    using runway_repeat [OF assms]
    by (simp add: split_beta)
qed simp_all

lemma run_undecorated:
  "undecorated c \<Longrightarrow> fst (run fl w c) = fst (run fl w' c) \<and> snd (run fl w c) = w"
  by (cases c) simp_all

lemma py_sub_numeric:
  assumes "is_numeric a" and "is_numeric b"
  shows "\<exists>v. py_sub a b = Inr v \<and> is_numeric v \<and> num v = num a - num b"
  using assms by (cases a; cases b) (simp_all add: py_sub_def)


section \<open>Revenue projection\<close>

text \<open>
  Claim C1, as stated, fails: every value is floored at 0 before it is appended, so a
  linear value below zero is not returned. With an initial revenue of 1000 and a linear
  percentage of -60 the value of period 2 is 0, where the formula gives -200.
\<close>

theorem revenue_linear_clamp_counterexample:
  "calculate_revenue_projection 1000 2 LINEAR (- 60) 0 ! 2 = 0
   \<and> calculate_revenue_projection 1000 2 LINEAR (- 60) 0 ! 2 \<noteq> 1000 + (1000 * (- 60) / 100) * 2"
  by code_simp

text \<open>
  Claim C1, amended. Under the Linear model the value at every period \<open>m\<close> in
  \<open>0..N\<close> is \<open>max 0 (R + (R * p / 100) * m)\<close>; it is \<open>R + (R * p / 100) * m\<close>
  exactly (no compounding) whenever that is not negative, in particular for \<open>R \<ge> 0\<close>
  and \<open>p \<ge> 0\<close>, and \<^verbatim>\<open>calculate_revenue_projection(10000, 3, Linear, 10)\<close> is
  \<open>[10000, 11000, 12000, 13000]\<close>.
\<close>

theorem revenue_linear_value:
  assumes "0 \<le> months" and "m \<le> nat months"
  shows "calculate_revenue_projection R months LINEAR p eb ! m = max 0 (R + (R * p / 100) * real m)
         \<and> (0 \<le> R + (R * p / 100) * real m \<longrightarrow>
              calculate_revenue_projection R months LINEAR p eb ! m = R + (R * p / 100) * real m)
         \<and> (0 \<le> R \<and> 0 \<le> p \<longrightarrow>
              calculate_revenue_projection R months LINEAR p eb ! m = R + (R * p / 100) * real m)
         \<and> calculate_revenue_projection 10000 3 LINEAR 10 eb = [10000, 11000, 12000, 13000]"
proof -
  have lt: "m < nat (months + 1)" using assms by linarith
  have val: "calculate_revenue_projection R months LINEAR p eb ! m =
               max 0 (R + (R * p / 100) * real m)"
    by (simp add: nth_calculate_revenue_projection [OF lt] revenue_of_month_def)
  have pos: "0 \<le> R + (R * p / 100) * real m" if "0 \<le> R \<and> 0 \<le> p"
    using that by simp
  have ex: "calculate_revenue_projection 10000 3 LINEAR 10 eb = [10000, 11000, 12000, 13000]"
    by (simp add: calculate_revenue_projection_map py_range_def upt_rec revenue_of_month_def)
  show ?thesis using val pos ex by simp
qed

theorem revenue_linear_value_witness:
  "calculate_revenue_projection 2000 5 LINEAR 25 0 ! 4 = 4000
   \<and> calculate_revenue_projection 1000 2 LINEAR (- 60) 7 ! 2 = 0"
  using revenue_linear_value [of 5 4 2000 25 0] revenue_linear_value [of 2 2 1000 "- 60" 7]
  by simp


section \<open>Customer flow\<close>

text \<open>
  Claim C2. For all inputs, every element of the total-customers list returned by
  \<open>calculate_customer_flow\<close> is non-negative: the list has one entry per period, and
  the entry of period \<open>m\<close> is \<open>max 0 (previous + new - churned)\<close>, where the previous
  total is the initial total at period 0 and the entry of period \<open>m - 1\<close> afterwards,
  and new and churned are the entries of period \<open>m\<close> in the other two lists. This
  holds whatever the rounding of the float operations.
\<close>

theorem customer_flow_total_nonneg:
  assumes "calculate_customer_flow fl initial_customers new_customers churn months gm lg eg =
             (nw, ch, tot)"
  shows "length tot = nat (months + 1)
         \<and> (\<forall>t \<in> set tot. 0 \<le> t)
         \<and> (\<forall>m < length tot. tot ! m =
               max 0 ((if m = 0 then initial_customers else tot ! (m - 1)) + nw ! m - ch ! m))"
proof -
  let ?T = "total_at fl initial_customers new_customers churn gm lg eg"
  have nw: "nw = map (new_of_month fl new_customers gm lg eg) (py_range (months + 1))"
    and ch: "ch = map (\<lambda>m. churned_of_total fl (?T m) churn) (py_range (months + 1))"
    and tot: "tot = map (\<lambda>m. ?T (Suc m)) (py_range (months + 1))"
    using assms by (simp_all add: calculate_customer_flow_map)
  have len: "length tot = nat (months + 1)"
    by (simp add: tot length_py_range)
  have nonneg: "\<forall>t \<in> set tot. 0 \<le> t"
    by (auto simp: tot)
  have step: "tot ! m = max 0 ((if m = 0 then initial_customers else tot ! (m - 1)) + nw ! m - ch ! m)"
    if "m < length tot" for m
  proof -
    from that have m: "m < nat (months + 1)" by (simp add: len)
    have prev: "(if m = 0 then initial_customers else tot ! (m - 1)) = ?T m"
    proof (cases m)
      case 0
      then show ?thesis by simp
    next
      case (Suc j)
      with m have "j < nat (months + 1)" by simp
      then show ?thesis by (simp add: Suc tot length_py_range nth_py_range)
    qed
    show ?thesis unfolding prev using m
      by (simp add: nw ch tot length_py_range nth_py_range)
  qed
  show ?thesis using len nonneg step by blast
qed

theorem customer_flow_total_nonneg_witness:
  "calculate_customer_flow exact_arith 5 0 300 2 FIXED 0 0 = ([0, 0, 0], [15, 0, 0], [0, 0, 0])
   \<and> list_all (\<lambda>t. 0 \<le> t)
        (snd (snd (calculate_customer_flow exact_arith 5 0 300 2 FIXED 0 0)))"
proof -
  have e: "calculate_customer_flow exact_arith 5 0 300 2 FIXED 0 0 =
             ([0, 0, 0], [15, 0, 0], [0, 0, 0])"
    by code_simp
  show ?thesis using e customer_flow_total_nonneg [OF e] by simp
qed


section \<open>Total-only customer projection\<close>

text \<open>
  Claim C3, as stated, fails. Under the Exponential model with a total of 100, a rate of
  100 (doubling) and a horizon of 2 the recorded totals are 100, 100, 200: period 1 does
  not record \<open>int (100 * 2 ^ 1) = 200\<close>. And the other branches do not use the
  total-update rule of the flow variant: under Fixed, with a churn rate of 50, the
  recorded totals are 100, 110, 120, where \<open>calculate_customer_flow\<close> gives 60, 40, 30.
  Every float operation at these inputs is exact.
\<close>

theorem customer_projection_exponential_counterexample:
  "calculate_customer_projection exact_arith
     \<lparr>total = 100, new = 10, cac = 500, churn_rate = 50, type = B2B\<rparr>
     \<lparr>total = 200, new = 20, cac = 50, churn_rate = 50, type = B2C\<rparr> 2 EXPONENTIAL 0 100 B2B
     = Some [100, 100, 200]
   \<and> py_int (real_of_int 100 * (1 + 100 / 100) ^ 1) = 200
   \<and> calculate_customer_projection exact_arith
     \<lparr>total = 100, new = 10, cac = 500, churn_rate = 50, type = B2B\<rparr>
     \<lparr>total = 200, new = 20, cac = 50, churn_rate = 50, type = B2C\<rparr> 2 FIXED 0 0 B2B
     = Some [100, 110, 120]
   \<and> calculate_customer_flow exact_arith 100 10 50 2 FIXED 0 0 =
       ([10, 10, 10], [50, 30, 20], [60, 40, 30])"
  by code_simp

text \<open>
  Claim C3, amended. \<open>calculate_customer_projection\<close> records one total per period,
  starting with the segment's initial total, and subtracts churn in no branch. Under the
  Exponential model the total of every period \<open>m \<ge> 1\<close> is recomputed from the initial
  total alone, as \<^verbatim>\<open>int(initial_total * (1 + rate / 100) ** k)\<close> in float arithmetic,
  with the exponent \<open>k\<close> equal to \<open>m\<close> or to \<open>m - 1\<close>. Under Fixed the total of
  period \<open>m\<close> is the initial total plus \<open>m\<close> times the new customers; under Linear the
  increment of each period is the new customers plus \<open>linear_growth\<close> times the index
  of the period before, which sums to
  \<open>initial_total + new * m + linear_growth * (m * (m - 1) div 2)\<close>. The segment is the
  second argument, or the first when the two types differ (the second is stored last
  under its type).
\<close>

theorem customer_projection_no_churn:
  assumes "metrics = b2c \<or> (metrics = b2b \<and> type b2b \<noteq> type b2c)"
    and "m < nat (months + 1)"
  shows "\<exists>cs. calculate_customer_projection fl b2b b2c months model lg eg (type metrics) = Some cs
           \<and> length cs = nat (months + 1)
           \<and> cs ! 0 = total metrics
           \<and> (model = EXPONENTIAL \<and> 0 < m \<longrightarrow>
                cs ! m = py_int (fmul fl (ffromint fl (total metrics))
                                   (fpow fl (fadd fl 1 (fdiv fl eg 100)) m))
                \<or> cs ! m = py_int (fmul fl (ffromint fl (total metrics))
                                     (fpow fl (fadd fl 1 (fdiv fl eg 100)) (m - 1))))
           \<and> (model = FIXED \<longrightarrow> cs ! m = total metrics + new metrics * int m)
           \<and> (model = LINEAR \<longrightarrow>
                cs ! m = total metrics + new metrics * int m + lg * (int m * (int m - 1) div 2))"
proof -
  let ?cs = "customer_series fl metrics months model lg eg"
  have look: "calculate_customer_projection fl b2b b2c months model lg eg (type metrics) =
                Some ?cs"
    by (rule calculate_customer_projection_lookup [OF assms(1)])
  have nth: "?cs ! m = customers_at fl metrics model lg eg m"
    by (rule nth_customer_series [OF assms(2)])
  have "0 < nat (months + 1)" using assms(2) by simp
  then have zero: "?cs ! 0 = total metrics"
    by (simp add: nth_customer_series)
  have ex: "?cs ! m = py_int (fmul fl (ffromint fl (total metrics))
                             (fpow fl (fadd fl 1 (fdiv fl eg 100)) (m - 1)))"
    if "model = EXPONENTIAL \<and> 0 < m"
  proof -
    from that obtain j where j: "m = Suc j" by (cases m) auto
    show ?thesis using nth that by (simp add: j)
  qed
  have fx: "?cs ! m = total metrics + new metrics * int m" if "model = FIXED"
    using nth that by (simp add: customers_at_fixed)
  have ln: "?cs ! m = total metrics + new metrics * int m + lg * (int m * (int m - 1) div 2)"
    if "model = LINEAR"
    using nth that by (simp add: customers_at_linear)
  show ?thesis
    using look length_customer_series [of fl metrics months model lg eg] zero ex fx ln by blast
qed

theorem customer_projection_no_churn_witness:
  "(\<exists>cs. calculate_customer_projection exact_arith
           \<lparr>total = 100, new = 10, cac = 500, churn_rate = 50, type = B2B\<rparr>
           \<lparr>total = 200, new = 20, cac = 50, churn_rate = 50, type = B2C\<rparr> 2 FIXED 0 0 B2B
           = Some cs \<and> length cs = 3 \<and> cs ! 0 = 100 \<and> cs ! 2 = 120)
   \<and> (\<exists>cs. calculate_customer_projection exact_arith
           \<lparr>total = 100, new = 10, cac = 500, churn_rate = 50, type = B2B\<rparr>
           \<lparr>total = 200, new = 20, cac = 50, churn_rate = 50, type = B2C\<rparr> 3 LINEAR 2 0 B2C
           = Some cs \<and> length cs = 4 \<and> cs ! 0 = 200 \<and> cs ! 3 = 266)
   \<and> (\<exists>cs. calculate_customer_projection exact_arith
           \<lparr>total = 100, new = 10, cac = 500, churn_rate = 50, type = B2B\<rparr>
           \<lparr>total = 200, new = 20, cac = 50, churn_rate = 50, type = B2C\<rparr> 2 EXPONENTIAL 0 100
           B2B
           = Some cs \<and> length cs = 3 \<and> cs ! 0 = 100 \<and> (cs ! 2 = 400 \<or> cs ! 2 = 200))"
  using customer_projection_no_churn
    [where metrics = "\<lparr>total = 100, new = 10, cac = 500, churn_rate = 50, type = B2B\<rparr>"
       and b2b = "\<lparr>total = 100, new = 10, cac = 500, churn_rate = 50, type = B2B\<rparr>"
       and b2c = "\<lparr>total = 200, new = 20, cac = 50, churn_rate = 50, type = B2C\<rparr>"
       and m = 2 and months = 2 and model = FIXED and lg = 0 and eg = 0 and fl = exact_arith]
    customer_projection_no_churn
    [where metrics = "\<lparr>total = 200, new = 20, cac = 50, churn_rate = 50, type = B2C\<rparr>"
       and b2b = "\<lparr>total = 100, new = 10, cac = 500, churn_rate = 50, type = B2B\<rparr>"
       and b2c = "\<lparr>total = 200, new = 20, cac = 50, churn_rate = 50, type = B2C\<rparr>"
       and m = 3 and months = 3 and model = LINEAR and lg = 2 and eg = 0 and fl = exact_arith]
    customer_projection_no_churn
    [where metrics = "\<lparr>total = 100, new = 10, cac = 500, churn_rate = 50, type = B2B\<rparr>"
       and b2b = "\<lparr>total = 100, new = 10, cac = 500, churn_rate = 50, type = B2B\<rparr>"
       and b2c = "\<lparr>total = 200, new = 20, cac = 50, churn_rate = 50, type = B2C\<rparr>"
       and m = 2 and months = 2 and model = EXPONENTIAL and lg = 0 and eg = 100
       and fl = exact_arith]
  by (simp add: exact_arith_def py_int_def)


section \<open>Length and first point of every trajectory\<close>

text \<open>
  Claim C4, as stated, fails on the first point: \<open>calculate_customer_flow\<close> records
  the total after the update of period 0 (110 for an initial total of 100 with 10 new
  customers and no churn), and \<open>calculate_revenue_projection\<close> floors the initial
  revenue at 0.
\<close>

theorem period_zero_counterexample:
  "calculate_customer_flow exact_arith 100 10 0 0 FIXED 0 0 = ([10], [0], [110])
   \<and> calculate_revenue_projection (- 5) 0 FIXED 0 0 = [0]"
  by code_simp

text \<open>
  Claim C4, amended. For every horizon \<open>H \<ge> 0\<close>, every list produced by the four
  projectors has exactly \<open>H + 1\<close> entries, for the periods 0 to \<open>H\<close> in order. The
  entry of period 0 is the input total in the total-only customer projection and the
  input cash in every scenario; it is \<open>max 0 R\<close> in the revenue projection; in the
  customer flow it is the total after the first update,
  \<open>max 0 (initial + new - churned)\<close>, where new and churned are the entries of period 0
  in the other two lists: churned is \<^verbatim>\<open>int(initial * (churn / 100))\<close> in float
  arithmetic, and new is the input number of new customers under the Fixed model,
  \<^verbatim>\<open>int(new * (1 + (linear_growth / 100) * 0))\<close> under Linear and
  \<^verbatim>\<open>int(new * (1 + growth_rate) ** 0)\<close> under Exponential, in float arithmetic.
  The scenario projector is the decorated function, called in any world that a process
  can reach.
\<close>

theorem projector_lengths_and_start:
  assumes "0 \<le> months"
  shows "length (calculate_revenue_projection R months model lc eb) = nat months + 1
         \<and> calculate_revenue_projection R months model lc eb ! 0 = max 0 R
         \<and> (case calculate_customer_flow fl initial_customers new_customers churn months model
                   lgf egf of
              (nw, ch, tot) \<Rightarrow>
                length nw = nat months + 1 \<and> length ch = nat months + 1
                \<and> length tot = nat months + 1
                \<and> (model = FIXED \<longrightarrow> nw ! 0 = new_customers)
                \<and> (model = LINEAR \<longrightarrow>
                     nw ! 0 = py_int (fmul fl (ffromint fl new_customers)
                                (fadd fl 1 (fmul fl (fdiv fl lgf 100) (ffromint fl 0)))))
                \<and> (model = EXPONENTIAL \<longrightarrow>
                     nw ! 0 = py_int (fmul fl (ffromint fl new_customers)
                                (fpow fl (fadd fl 1 (fdiv fl egf 100)) 0)))
                \<and> ch ! 0 = py_int (fmul fl (ffromint fl initial_customers) (fdiv fl churn 100))
                \<and> tot ! 0 = max 0 (initial_customers + nw ! 0 - ch ! 0))
         \<and> (metrics = b2c \<or> (metrics = b2b \<and> type b2b \<noteq> type b2c) \<longrightarrow>
              (\<exists>cs. calculate_customer_projection fl b2b b2c months model lg eg (type metrics)
                      = Some cs
                    \<and> length cs = nat months + 1 \<and> cs ! 0 = total metrics))
         \<and> (reachable w \<longrightarrow>
              (\<exists>ps. fst (generate_scenario_projections w cash_balance monthly_revenue
                    monthly_expenses months scenarios model lc eb) = Inr ps
                  \<and> length ps = length scenarios
                  \<and> (\<forall>p \<in> set ps. case p of (nm, dates, cashs, col) \<Rightarrow>
                        length dates = nat months + 1 \<and> length cashs = nat months + 1
                        \<and> cashs ! 0 = cash_balance)))"
proof -
  have n: "nat (months + 1) = nat months + 1" and pos: "0 < nat (months + 1)"
    using assms by simp_all
  have rev: "length (calculate_revenue_projection R months model lc eb) = nat months + 1
             \<and> calculate_revenue_projection R months model lc eb ! 0 = max 0 R"
    using nth_calculate_revenue_projection [OF pos, of R model lc eb]
    by (simp add: length_calculate_revenue_projection n revenue_of_month_def)
  have flow: "case calculate_customer_flow fl initial_customers new_customers churn months model
                   lgf egf of
              (nw, ch, tot) \<Rightarrow>
                length nw = nat months + 1 \<and> length ch = nat months + 1
                \<and> length tot = nat months + 1
                \<and> (model = FIXED \<longrightarrow> nw ! 0 = new_customers)
                \<and> (model = LINEAR \<longrightarrow>
                     nw ! 0 = py_int (fmul fl (ffromint fl new_customers)
                                (fadd fl 1 (fmul fl (fdiv fl lgf 100) (ffromint fl 0)))))
                \<and> (model = EXPONENTIAL \<longrightarrow>
                     nw ! 0 = py_int (fmul fl (ffromint fl new_customers)
                                (fpow fl (fadd fl 1 (fdiv fl egf 100)) 0)))
                \<and> ch ! 0 = py_int (fmul fl (ffromint fl initial_customers) (fdiv fl churn 100))
                \<and> tot ! 0 = max 0 (initial_customers + nw ! 0 - ch ! 0)"
    using pos by (simp add: calculate_customer_flow_map length_py_range nth_py_range
        new_of_month_def churned_of_total_def n)
  have proj: "\<exists>cs. calculate_customer_projection fl b2b b2c months model lg eg (type metrics)
                      = Some cs
                    \<and> length cs = nat months + 1 \<and> cs ! 0 = total metrics"
    if "metrics = b2c \<or> (metrics = b2b \<and> type b2b \<noteq> type b2c)"
    using calculate_customer_projection_lookup [OF that, of fl months model lg eg] pos
    by (simp add: length_customer_series nth_customer_series n)
  have scen: "\<exists>ps. fst (generate_scenario_projections w cash_balance monthly_revenue
                    monthly_expenses months scenarios model lc eb) = Inr ps
                  \<and> length ps = length scenarios
                  \<and> (\<forall>p \<in> set ps. case p of (nm, dates, cashs, col) \<Rightarrow>
                        length dates = nat months + 1 \<and> length cashs = nat months + 1
                        \<and> cashs ! 0 = cash_balance)"
    if r: "reachable w"
  proof -
    obtain t where "fst (generate_scenario_projections w cash_balance monthly_revenue
                      monthly_expenses months scenarios model lc eb) =
                    generate_scenario_projections_body t cash_balance monthly_revenue
                      monthly_expenses months scenarios model lc eb"
      using scenario_cached_result [OF r] by blast
    then show ?thesis
      using pos
      by (auto simp: generate_scenario_projections_body_map length_py_range
          length_scenario_cash nth_scenario_cash n)
  qed
  show ?thesis using rev flow proj scen by blast
qed

theorem projector_lengths_and_start_witness:
  "length (calculate_revenue_projection 500 3 FIXED 0 0) = 4
   \<and> calculate_revenue_projection 500 3 FIXED 0 0 ! 0 = 500
   \<and> length (snd (snd (calculate_customer_flow exact_arith 100 10 50 3 FIXED 0 0))) = 4
   \<and> snd (snd (calculate_customer_flow exact_arith 100 10 50 3 FIXED 0 0)) ! 0 = 60
   \<and> (\<exists>cs. calculate_customer_projection exact_arith
              \<lparr>total = 100, new = 10, cac = 500, churn_rate = 50, type = B2B\<rparr>
              \<lparr>total = 200, new = 20, cac = 50, churn_rate = 50, type = B2C\<rparr> 3 FIXED 0 0 B2B
              = Some cs \<and> length cs = 4 \<and> cs ! 0 = 100)
   \<and> (\<exists>ps. fst (generate_scenario_projections
                  \<lparr>clock = 738886, runway_cache = Map.empty, scenario_cache = Map.empty\<rparr>
                  1000 100 200 3
                  [\<lparr>name = ''Normal Case'', revenue_multiplier = 1, expense_multiplier = 1,
                    customer_growth_multiplier = 1.1, color = ''blue''\<rparr>] FIXED 0 0) = Inr ps
            \<and> length ps = 1
            \<and> list_all (\<lambda>(nm, dates, cashs, col).
                  length dates = 4 \<and> length cashs = 4 \<and> cashs ! 0 = 1000) ps)"
  using projector_lengths_and_start
    [where months = 3 and R = 500 and model = FIXED and lc = 0 and eb = 0
       and fl = exact_arith
       and initial_customers = 100 and new_customers = 10 and churn = 50 and lgf = 0 and egf = 0
       and metrics = "\<lparr>total = 100, new = 10, cac = 500, churn_rate = 50, type = B2B\<rparr>"
       and b2b = "\<lparr>total = 100, new = 10, cac = 500, churn_rate = 50, type = B2B\<rparr>"
       and b2c = "\<lparr>total = 200, new = 20, cac = 50, churn_rate = 50, type = B2C\<rparr>"
       and lg = 0 and eg = 0
       and w = "\<lparr>clock = 738886, runway_cache = Map.empty, scenario_cache = Map.empty\<rparr>"
       and cash_balance = 1000
       and monthly_revenue = 100 and monthly_expenses = 200
       and scenarios = "[\<lparr>name = ''Normal Case'', revenue_multiplier = 1, expense_multiplier = 1,
                customer_growth_multiplier = 1.1, color = ''blue''\<rparr>]"]
    reachable.start [of 738886]
  by (simp add: py_int_def exact_arith_def list_all_iff split: prod.splits)


section \<open>Scenario projections\<close>

text \<open>
  Claim C7. \<open>generate_scenario_projections\<close> returns one result per scenario, in
  the order of the input list, each with the name and the colour of its scenario. The
  cash recorded for period \<open>m\<close> is the starting cash minus the burn of the periods
  before \<open>m\<close> only (the burn of period \<open>m\<close> itself is not yet subtracted), so the
  entry of period 0 is the input cash balance. This is what the body returns on every
  day, and a call of the decorated function in a world that a process can reach
  returns what the body returned on some day.
\<close>

theorem scenario_projections_order_and_cash:
  "(\<exists>ps. generate_scenario_projections_body now cash_balance monthly_revenue monthly_expenses
           months scenarios revenue_model linear_coefficient exponential_base = Inr ps
        \<and> length ps = length scenarios
        \<and> map fst ps = map name scenarios
        \<and> (\<forall>i<length scenarios. case ps ! i of (nm, dates, cashs, col) \<Rightarrow>
              nm = name (scenarios ! i) \<and> col = color (scenarios ! i)
              \<and> length cashs = nat (months + 1)
              \<and> (0 \<le> months \<longrightarrow> cashs ! 0 = cash_balance)
              \<and> (\<forall>m<nat (months + 1). cashs ! m =
                    cash_balance -
                    (\<Sum>k<m. monthly_expenses * expense_multiplier (scenarios ! i) * 1.02 ^ k
                       - calculate_revenue_projection
                           (monthly_revenue * revenue_multiplier (scenarios ! i)) months
                           revenue_model
                           (linear_coefficient * revenue_multiplier (scenarios ! i))
                           (exponential_base * revenue_multiplier (scenarios ! i)) ! k))))
   \<and> (reachable w \<longrightarrow>
        (\<exists>t. fst (generate_scenario_projections w cash_balance monthly_revenue
                    monthly_expenses months scenarios revenue_model linear_coefficient
                    exponential_base) =
              generate_scenario_projections_body t cash_balance monthly_revenue
                monthly_expenses months scenarios revenue_model linear_coefficient
                exponential_base))"
proof -
  let ?proj = "\<lambda>s. (name s,
                   map (\<lambda>month. strftime_ym (now + 30 * int month)) (py_range (months + 1)),
                   scenario_cash cash_balance monthly_revenue monthly_expenses months
                     revenue_model linear_coefficient exponential_base s,
                   color s)"
  have eq: "generate_scenario_projections_body now cash_balance monthly_revenue
              monthly_expenses months scenarios revenue_model linear_coefficient
              exponential_base =
            Inr (map ?proj scenarios)"
    by (rule generate_scenario_projections_body_map)
  have names: "map fst (map ?proj scenarios) = map name scenarios"
    by simp
  have each: "case map ?proj scenarios ! i of (nm, dates, cashs, col) \<Rightarrow>
              nm = name (scenarios ! i) \<and> col = color (scenarios ! i)
              \<and> length cashs = nat (months + 1)
              \<and> (0 \<le> months \<longrightarrow> cashs ! 0 = cash_balance)
              \<and> (\<forall>m<nat (months + 1). cashs ! m =
                    cash_balance -
                    (\<Sum>k<m. monthly_expenses * expense_multiplier (scenarios ! i) * 1.02 ^ k
                       - calculate_revenue_projection
                           (monthly_revenue * revenue_multiplier (scenarios ! i)) months
                           revenue_model
                           (linear_coefficient * revenue_multiplier (scenarios ! i))
                           (exponential_base * revenue_multiplier (scenarios ! i)) ! k))"
    if "i < length scenarios" for i
    using that by (simp add: length_scenario_cash nth_scenario_cash)
  have body: "\<exists>ps. generate_scenario_projections_body now cash_balance monthly_revenue
           monthly_expenses months scenarios revenue_model linear_coefficient
           exponential_base = Inr ps
        \<and> length ps = length scenarios
        \<and> map fst ps = map name scenarios
        \<and> (\<forall>i<length scenarios. case ps ! i of (nm, dates, cashs, col) \<Rightarrow>
              nm = name (scenarios ! i) \<and> col = color (scenarios ! i)
              \<and> length cashs = nat (months + 1)
              \<and> (0 \<le> months \<longrightarrow> cashs ! 0 = cash_balance)
              \<and> (\<forall>m<nat (months + 1). cashs ! m =
                    cash_balance -
                    (\<Sum>k<m. monthly_expenses * expense_multiplier (scenarios ! i) * 1.02 ^ k
                       - calculate_revenue_projection
                           (monthly_revenue * revenue_multiplier (scenarios ! i)) months
                           revenue_model
                           (linear_coefficient * revenue_multiplier (scenarios ! i))
                           (exponential_base * revenue_multiplier (scenarios ! i)) ! k)))"
    unfolding eq using names each by (intro exI [of _ "map ?proj scenarios"]) simp
  have cached: "\<exists>t. fst (generate_scenario_projections w cash_balance monthly_revenue
                    monthly_expenses months scenarios revenue_model linear_coefficient
                    exponential_base) =
              generate_scenario_projections_body t cash_balance monthly_revenue
                monthly_expenses months scenarios revenue_model linear_coefficient
                exponential_base"
    if "reachable w"
    by (rule scenario_cached_result [OF that])
  show ?thesis using body cached by blast
qed

theorem scenario_projections_order_and_cash_witness:
  "(\<exists>ps. generate_scenario_projections_body 738886 1000 100 200 2
           [\<lparr>name = ''Best Case'', revenue_multiplier = 1.2, expense_multiplier = 0.9,
             customer_growth_multiplier = 1.15, color = ''green''\<rparr>,
            \<lparr>name = ''Worst Case'', revenue_multiplier = 0.8, expense_multiplier = 1.1,
             customer_growth_multiplier = 1.05, color = ''red''\<rparr>] LINEAR 10 0 = Inr ps
        \<and> length ps = 2
        \<and> map fst ps = [''Best Case'', ''Worst Case'']
        \<and> (case ps ! 1 of (nm, dates, cashs, col) \<Rightarrow>
              nm = ''Worst Case'' \<and> col = ''red'' \<and> length cashs = 3 \<and> cashs ! 0 = 1000))
   \<and> (\<exists>t. fst (generate_scenario_projections
                 \<lparr>clock = 738886, runway_cache = Map.empty, scenario_cache = Map.empty\<rparr>
                 1000 100 200 2
                 [\<lparr>name = ''Best Case'', revenue_multiplier = 1.2, expense_multiplier = 0.9,
                   customer_growth_multiplier = 1.15, color = ''green''\<rparr>,
                  \<lparr>name = ''Worst Case'', revenue_multiplier = 0.8, expense_multiplier = 1.1,
                   customer_growth_multiplier = 1.05, color = ''red''\<rparr>] LINEAR 10 0) =
            generate_scenario_projections_body t 1000 100 200 2
                 [\<lparr>name = ''Best Case'', revenue_multiplier = 1.2, expense_multiplier = 0.9,
                   customer_growth_multiplier = 1.15, color = ''green''\<rparr>,
                  \<lparr>name = ''Worst Case'', revenue_multiplier = 0.8, expense_multiplier = 1.1,
                   customer_growth_multiplier = 1.05, color = ''red''\<rparr>] LINEAR 10 0)"
proof -
  let ?S = "[\<lparr>name = ''Best Case'', revenue_multiplier = 1.2, expense_multiplier = 0.9,
              customer_growth_multiplier = 1.15, color = ''green''\<rparr>,
             \<lparr>name = ''Worst Case'', revenue_multiplier = 0.8, expense_multiplier = 1.1,
              customer_growth_multiplier = 1.05, color = ''red''\<rparr>]"
  let ?w = "\<lparr>clock = 738886, runway_cache = Map.empty, scenario_cache = Map.empty\<rparr>"
  note inst = scenario_projections_order_and_cash
      [where now = 738886 and cash_balance = 1000 and monthly_revenue = 100
         and monthly_expenses = 200 and months = 2 and revenue_model = LINEAR
         and linear_coefficient = 10 and exponential_base = 0 and scenarios = ?S
         and w = ?w]
  obtain ps where ret: "generate_scenario_projections_body 738886 1000 100 200 2 ?S LINEAR 10 0
                          = Inr ps"
    and len: "length ps = length ?S"
    and names: "map fst ps = map name ?S"
    and each: "\<forall>i<length ?S. case ps ! i of (nm, dates, cashs, col) \<Rightarrow>
              nm = name (?S ! i) \<and> col = color (?S ! i)
              \<and> length cashs = nat (2 + 1)
              \<and> ((0::int) \<le> 2 \<longrightarrow> cashs ! 0 = 1000)
              \<and> (\<forall>m<nat (2 + 1). cashs ! m =
                    1000 -
                    (\<Sum>k<m. 200 * expense_multiplier (?S ! i) * 1.02 ^ k
                       - calculate_revenue_projection
                           (100 * revenue_multiplier (?S ! i)) 2 LINEAR
                           (10 * revenue_multiplier (?S ! i))
                           (0 * revenue_multiplier (?S ! i)) ! k))"
    using inst by blast
  from each have "case ps ! 1 of (nm, dates, cashs, col) \<Rightarrow>
              nm = name (?S ! 1) \<and> col = color (?S ! 1)
              \<and> length cashs = nat (2 + 1)
              \<and> ((0::int) \<le> 2 \<longrightarrow> cashs ! 0 = 1000)"
    by (auto split: prod.splits)
  then have one: "case ps ! 1 of (nm, dates, cashs, col) \<Rightarrow>
              nm = ''Worst Case'' \<and> col = ''red'' \<and> length cashs = 3 \<and> cashs ! 0 = 1000"
    by (simp split: prod.splits)
  have cached: "\<exists>t. fst (generate_scenario_projections ?w 1000 100 200 2 ?S LINEAR 10 0) =
                    generate_scenario_projections_body t 1000 100 200 2 ?S LINEAR 10 0"
    using inst reachable.start [of 738886] by blast
  from ret len names one cached show ?thesis by simp
qed


section \<open>Repeated calls and the clock\<close>

text \<open>
  Claim C8, as stated, fails: \<open>generate_runway_projection\<close> and
  \<open>generate_scenario_projections\<close> are not functions of their explicit arguments.
  When the arguments are not in the cache (here: the first call of a process) the body
  reads the current time for the date labels, so the same arguments give other labels
  in a process started on another day (here 2024-01-01 and 2025-01-01).
\<close>

theorem clock_dependence_counterexample:
  "fst (generate_runway_projection
         \<lparr>clock = 738886, runway_cache = Map.empty, scenario_cache = Map.empty\<rparr> 1000 100 1)
     = Inr ([''2024-01'', ''2024-01''], [1000, 900])
   \<and> fst (generate_runway_projection
         \<lparr>clock = 739252, runway_cache = Map.empty, scenario_cache = Map.empty\<rparr> 1000 100 1)
     = Inr ([''2025-01'', ''2025-01''], [1000, 900])
   \<and> fst (generate_scenario_projections
         \<lparr>clock = 738886, runway_cache = Map.empty, scenario_cache = Map.empty\<rparr>
         1000 100 200 0
         [\<lparr>name = ''Normal Case'', revenue_multiplier = 1, expense_multiplier = 1,
           customer_growth_multiplier = 1.1, color = ''blue''\<rparr>] FIXED 0 0)
      = Inr [(''Normal Case'', [''2024-01''], [1000], ''blue'')]
   \<and> fst (generate_scenario_projections
         \<lparr>clock = 739252, runway_cache = Map.empty, scenario_cache = Map.empty\<rparr>
         1000 100 200 0
         [\<lparr>name = ''Normal Case'', revenue_multiplier = 1, expense_multiplier = 1,
           customer_growth_multiplier = 1.1, color = ''blue''\<rparr>] FIXED 0 0)
      = Inr [(''Normal Case'', [''2025-01''], [1000], ''blue'')]"
  by code_simp

text \<open>
  Claim C8, amended. Called twice with identical arguments in one process (the second
  call sees the caches left by the first, and the clock has not run backwards), each of
  the five projectors returns the same output in all components.
  \<open>calculate_revenue_projection\<close>, \<open>calculate_customer_flow\<close> and
  \<open>calculate_customer_projection\<close>
  return the same output in every world and leave the world unchanged.
  \<open>generate_scenario_projections\<close> and \<open>generate_runway_projection\<close> are memoised:
  arguments found in the cache return the stored result; otherwise the body runs and
  reads the current day. In all worlds that a process can reach, the names, cash lists
  and colours they return are determined by the arguments alone, and the date labels are
  those of the day on which the body ran: the current day when the arguments are not in
  the cache.
\<close>

theorem repeated_calls_and_clock:
  "(clock w \<le> t \<longrightarrow> fst (run fl ((snd (run fl w c))\<lparr>clock := t\<rparr>) c) = fst (run fl w c))
   \<and> (undecorated c \<longrightarrow> fst (run fl w c) = fst (run fl w' c) \<and> snd (run fl w c) = w)
   \<and> (runway_cache w (cash_balance, burn_rate, runway_months) = Some stored \<longrightarrow>
        fst (generate_runway_projection w cash_balance burn_rate runway_months) = Inr stored)
   \<and> (scenario_cache w (cash_balance, monthly_revenue, monthly_expenses, months, scenarios,
          revenue_model, linear_coefficient, exponential_base) = Some stored' \<longrightarrow>
        fst (generate_scenario_projections w cash_balance monthly_revenue monthly_expenses
               months scenarios revenue_model linear_coefficient exponential_base)
          = Inr stored')
   \<and> (runway_cache w (cash_balance, burn_rate, runway_months) = None \<longrightarrow>
        fst (generate_runway_projection w cash_balance burn_rate runway_months) =
          generate_runway_projection_body (clock w) cash_balance burn_rate runway_months)
   \<and> (scenario_cache w (cash_balance, monthly_revenue, monthly_expenses, months, scenarios,
          revenue_model, linear_coefficient, exponential_base) = None \<longrightarrow>
        fst (generate_scenario_projections w cash_balance monthly_revenue monthly_expenses
               months scenarios revenue_model linear_coefficient exponential_base) =
          generate_scenario_projections_body (clock w) cash_balance monthly_revenue
            monthly_expenses months scenarios revenue_model linear_coefficient
            exponential_base)
   \<and> (reachable w \<longrightarrow>
        (\<exists>day ps.
            fst (generate_scenario_projections w cash_balance monthly_revenue monthly_expenses
                   months scenarios revenue_model linear_coefficient exponential_base)
              = Inr ps
          \<and> map (\<lambda>(nm, dates, cashs, col). (nm, cashs, col)) ps =
              map (\<lambda>s. (name s,
                         map (\<lambda>m. cash_balance -
                                (\<Sum>k<m. monthly_expenses * expense_multiplier s * 1.02 ^ k
                                   - calculate_revenue_projection
                                       (monthly_revenue * revenue_multiplier s) months
                                       revenue_model
                                       (linear_coefficient * revenue_multiplier s)
                                       (exponential_base * revenue_multiplier s) ! k))
                           (py_range (months + 1)),
                         color s)) scenarios
          \<and> map (\<lambda>(nm, dates, cashs, col). dates) ps =
              map (\<lambda>s. map (\<lambda>month. strftime_ym (day + 30 * int month))
                          (py_range (months + 1))) scenarios))
   \<and> (reachable w \<longrightarrow>
        (\<forall>dates cashs.
            fst (generate_runway_projection w cash_balance burn_rate runway_months)
              = Inr (dates, cashs) \<longrightarrow>
            cashs = map (\<lambda>month. cash_balance - burn_rate * real month)
                      (py_range (py_int runway_months + 1))
            \<and> (\<exists>day. dates = map (\<lambda>month. strftime_ym (day + 30 * int month))
                                (py_range (py_int runway_months + 1)))))"
proof -
  have rep: "fst (run fl ((snd (run fl w c))\<lparr>clock := t\<rparr>) c) = fst (run fl w c)"
    if "clock w \<le> t"
    by (rule run_repeat [OF that])
  have und: "fst (run fl w c) = fst (run fl w' c) \<and> snd (run fl w c) = w" if "undecorated c"
    by (rule run_undecorated [OF that])
  have hit_r: "fst (generate_runway_projection w cash_balance burn_rate runway_months) =
                 Inr stored"
    if "runway_cache w (cash_balance, burn_rate, runway_months) = Some stored"
    using that by (simp add: generate_runway_projection_def)
  have hit_s: "fst (generate_scenario_projections w cash_balance monthly_revenue
                 monthly_expenses months scenarios revenue_model linear_coefficient
                 exponential_base) = Inr stored'"
    if "scenario_cache w (cash_balance, monthly_revenue, monthly_expenses, months, scenarios,
          revenue_model, linear_coefficient, exponential_base) = Some stored'"
    using that by (simp add: generate_scenario_projections_def)
  have miss_r: "fst (generate_runway_projection w cash_balance burn_rate runway_months) =
          generate_runway_projection_body (clock w) cash_balance burn_rate runway_months"
    if "runway_cache w (cash_balance, burn_rate, runway_months) = None"
    using that by (simp add: generate_runway_projection_def split: sum.splits)
  have miss_s: "fst (generate_scenario_projections w cash_balance monthly_revenue
               monthly_expenses months scenarios revenue_model linear_coefficient
               exponential_base) =
          generate_scenario_projections_body (clock w) cash_balance monthly_revenue
            monthly_expenses months scenarios revenue_model linear_coefficient
            exponential_base"
    if "scenario_cache w (cash_balance, monthly_revenue, monthly_expenses, months, scenarios,
          revenue_model, linear_coefficient, exponential_base) = None"
    using that by (simp add: generate_scenario_projections_def split: sum.splits)
  have scen: "\<exists>day ps.
            fst (generate_scenario_projections w cash_balance monthly_revenue monthly_expenses
                   months scenarios revenue_model linear_coefficient exponential_base)
              = Inr ps
          \<and> map (\<lambda>(nm, dates, cashs, col). (nm, cashs, col)) ps =
              map (\<lambda>s. (name s,
                         map (\<lambda>m. cash_balance -
                                (\<Sum>k<m. monthly_expenses * expense_multiplier s * 1.02 ^ k
                                   - calculate_revenue_projection
                                       (monthly_revenue * revenue_multiplier s) months
                                       revenue_model
                                       (linear_coefficient * revenue_multiplier s)
                                       (exponential_base * revenue_multiplier s) ! k))
                           (py_range (months + 1)),
                         color s)) scenarios
          \<and> map (\<lambda>(nm, dates, cashs, col). dates) ps =
              map (\<lambda>s. map (\<lambda>month. strftime_ym (day + 30 * int month))
                          (py_range (months + 1))) scenarios"
    if r: "reachable w"
  proof -
    obtain day where "fst (generate_scenario_projections w cash_balance monthly_revenue
                      monthly_expenses months scenarios revenue_model linear_coefficient
                      exponential_base) =
                    generate_scenario_projections_body day cash_balance monthly_revenue
                      monthly_expenses months scenarios revenue_model linear_coefficient
                      exponential_base"
      using scenario_cached_result [OF r] by blast
    then show ?thesis
      by (intro exI [of _ day])
        (simp add: generate_scenario_projections_body_map scenario_cash_def comp_def)
  qed
  have runw: "cashs = map (\<lambda>month. cash_balance - burn_rate * real month)
                      (py_range (py_int runway_months + 1))
            \<and> (\<exists>day. dates = map (\<lambda>month. strftime_ym (day + 30 * int month))
                                (py_range (py_int runway_months + 1)))"
    if r: "reachable w"
      and res: "fst (generate_runway_projection w cash_balance burn_rate runway_months)
                  = Inr (dates, cashs)"
    for dates cashs
  proof -
    obtain day where "fst (generate_runway_projection w cash_balance burn_rate runway_months) =
                    generate_runway_projection_body day cash_balance burn_rate runway_months"
      using runway_cached_result [OF r] by blast
    with res have "generate_runway_projection_body day cash_balance burn_rate runway_months =
                     Inr (dates, cashs)"
      by simp
    from runway_body_Inr [OF this] show ?thesis by blast
  qed
  show ?thesis
    using rep und hit_r hit_s miss_r miss_s scen runw by blast
qed

theorem repeated_calls_and_clock_witness:
  "fst (run exact_arith
         ((snd (run exact_arith
                  \<lparr>clock = 738886, runway_cache = Map.empty, scenario_cache = Map.empty\<rparr>
                  (RunwayProjection 1000 100 1)))\<lparr>clock := 739252\<rparr>)
         (RunwayProjection 1000 100 1)) =
     Runway (Inr ([''2024-01'', ''2024-01''], [1000, 900]))
   \<and> fst (run exact_arith
           \<lparr>clock = 739252, runway_cache = Map.empty, scenario_cache = Map.empty\<rparr>
           (RevenueProjection 500 1 LINEAR 10 0)) =
     fst (run exact_arith
           \<lparr>clock = 738886, runway_cache = Map.empty, scenario_cache = Map.empty\<rparr>
           (RevenueProjection 500 1 LINEAR 10 0))"
proof -
  let ?w = "\<lparr>clock = 738886, runway_cache = Map.empty, scenario_cache = Map.empty\<rparr>"
  have e: "fst (generate_runway_projection ?w 1000 100 1) =
             Inr ([''2024-01'', ''2024-01''], [1000, 900])"
    by code_simp
  have first: "fst (run exact_arith ?w (RunwayProjection 1000 100 1)) =
                 Runway (Inr ([''2024-01'', ''2024-01''], [1000, 900]))"
    by (simp add: split_beta e)
  have later: "clock ?w \<le> 739252"
    by simp
  show ?thesis
    using repeated_calls_and_clock
        [where w = ?w and t = 739252 and c = "RunwayProjection 1000 100 1"
           and fl = exact_arith]
      repeated_calls_and_clock
        [where w = "\<lparr>clock = 739252, runway_cache = Map.empty, scenario_cache = Map.empty\<rparr>"
           and w' = ?w and c = "RevenueProjection 500 1 LINEAR 10 0" and fl = exact_arith]
      first later
    by simp
qed


section \<open>Scalar formulas: properties\<close>

text \<open>
  Claim C5. For numeric arguments, \<open>calculate_runway\<close> returns \<open>cash / burn\<close> when the
  burn is positive and 0 otherwise (zero and negative burn included); hence the runway
  is not negative when the cash is not negative and the burn is positive.
\<close>

theorem calculate_runway_value:
  assumes "is_numeric cash_balance" and "is_numeric monthly_burn"
  shows "calculate_runway cash_balance monthly_burn =
           Inr (if num monthly_burn > 0 then PFloat (num cash_balance / num monthly_burn)
                else PInt 0)
         \<and> (0 \<le> num cash_balance \<and> 0 < num monthly_burn \<longrightarrow>
              (\<exists>v. calculate_runway cash_balance monthly_burn = Inr v \<and> 0 \<le> num v))"
  using assms by (auto simp: calculate_runway_def py_truediv_def)

theorem calculate_runway_value_witness:
  "calculate_runway (PFloat 100000) (PInt 12000) = Inr (PFloat (25 / 3))
   \<and> calculate_runway (PFloat 100000) (PInt 0) = Inr (PInt 0)
   \<and> calculate_runway (PInt 5) (PFloat (- 2)) = Inr (PInt 0)"
  using calculate_runway_value [of "PFloat 100000" "PInt 12000"]
        calculate_runway_value [of "PFloat 100000" "PInt 0"]
        calculate_runway_value [of "PInt 5" "PFloat (- 2)"]
  by simp

text \<open>
  Claim C6. \<open>calculate_lifetime_from_churn\<close> returns \<open>1 / (c / 100)\<close> for a positive
  churn percentage \<open>c\<close> and positive infinity otherwise; the result is infinite at
  \<open>c = 0\<close> and equals 1 at \<open>c = 100\<close>.
\<close>

theorem calculate_lifetime_from_churn_value:
  "(c > 0 \<longrightarrow> calculate_lifetime_from_churn c = Finite (1 / (c / 100)))
   \<and> (\<not> c > 0 \<longrightarrow> calculate_lifetime_from_churn c = PosInf)
   \<and> calculate_lifetime_from_churn 0 = PosInf
   \<and> calculate_lifetime_from_churn 100 = Finite 1"
  by (simp add: calculate_lifetime_from_churn_def)

theorem calculate_lifetime_from_churn_value_witness:
  "calculate_lifetime_from_churn 5 = Finite 20
   \<and> calculate_lifetime_from_churn (- 3) = PosInf"
  using calculate_lifetime_from_churn_value [of 5]
        calculate_lifetime_from_churn_value [of "- 3"]
  by simp

text \<open>
  Claim C9, as stated, fails: \<open>calculate_mom_growth\<close> has no \<^verbatim>\<open>isinstance\<close> guard.
  With a string as current value and 0 as previous value it returns 0, and with a
  non-zero previous value the subtraction raises a TypeError, not the ValueError of
  the guarded formulas.
\<close>

theorem mom_growth_non_numeric_counterexample:
  "\<not> is_numeric (PStr ''abc'')
   \<and> calculate_mom_growth (PStr ''abc'') (PInt 0) = Inr (PInt 0)
   \<and> calculate_mom_growth (PStr ''abc'') (PInt 5) = Inl TypeError"
  by (simp add: calculate_mom_growth_def py_sub_def)

text \<open>
  Claim C9, amended. The two guarded formulas, \<open>calculate_burn_rate\<close> and
  \<open>calculate_runway\<close>, raise the ValueError as soon as one argument is not numeric,
  returning nothing else; on numeric arguments \<open>calculate_burn_rate\<close> returns
  \<open>expenses - revenues\<close>.
\<close>

theorem guarded_formulas_invalid_input:
  "(\<not> is_numeric a \<or> \<not> is_numeric b \<longrightarrow>
      calculate_burn_rate a b = Inl (ValueError ''Revenues and expenses must be numeric values'')
      \<and> calculate_runway a b =
          Inl (ValueError ''Cash balance and monthly burn must be numeric values''))
   \<and> (is_numeric a \<and> is_numeric b \<longrightarrow>
      (\<exists>v. calculate_burn_rate a b = Inr v \<and> is_numeric v \<and> num v = num b - num a))"
proof (intro conjI impI)
  assume "is_numeric a \<and> is_numeric b"
  then show "\<exists>v. calculate_burn_rate a b = Inr v \<and> is_numeric v \<and> num v = num b - num a"
    using py_sub_numeric [of b a] by (simp add: calculate_burn_rate_def)
qed (simp_all add: calculate_burn_rate_def calculate_runway_def)

theorem guarded_formulas_invalid_input_witness:
  "calculate_burn_rate (PStr ''8000'') (PInt 20000) =
     Inl (ValueError ''Revenues and expenses must be numeric values'')
   \<and> calculate_runway (PInt 100000) PNone =
     Inl (ValueError ''Cash balance and monthly burn must be numeric values'')
   \<and> (\<exists>v. calculate_burn_rate (PInt 8000) (PInt 20000) = Inr v \<and> num v = 12000)"
  using guarded_formulas_invalid_input [of "PStr ''8000''" "PInt 20000"]
        guarded_formulas_invalid_input [of "PInt 100000" PNone]
        guarded_formulas_invalid_input [of "PInt 8000" "PInt 20000"]
  by auto


section \<open>Churn rate and the total-only projection\<close>

text \<open>
  Claim C10. The result of \<open>calculate_customer_projection\<close> does not depend on the
  churn rates of its two segments: replacing them by any other values leaves the
  projection unchanged, for every horizon, model and growth coefficient (and whatever
  the rounding of the float operations).
\<close>

theorem customer_projection_ignores_churn_rate:
  "calculate_customer_projection fl (b2b\<lparr>churn_rate := ca\<rparr>) (b2c\<lparr>churn_rate := cb\<rparr>)
     months model lg eg =
   calculate_customer_projection fl b2b b2c months model lg eg"
  by (simp add: calculate_customer_projection_map customer_series_churn_rate)

theorem customer_projection_ignores_churn_rate_witness:
  "calculate_customer_projection exact_arith
     \<lparr>total = 20, new = 5, cac = 500, churn_rate = 90, type = B2B\<rparr>
     \<lparr>total = 80, new = 15, cac = 50, churn_rate = 100, type = B2C\<rparr> 3 LINEAR 2 0 =
   calculate_customer_projection exact_arith
     \<lparr>total = 20, new = 5, cac = 500, churn_rate = 2, type = B2B\<rparr>
     \<lparr>total = 80, new = 15, cac = 50, churn_rate = 5, type = B2C\<rparr> 3 LINEAR 2 0"
  using customer_projection_ignores_churn_rate
    [where b2b = "\<lparr>total = 20, new = 5, cac = 500, churn_rate = 2, type = B2B\<rparr>"
       and ca = 90
       and b2c = "\<lparr>total = 80, new = 15, cac = 50, churn_rate = 5, type = B2C\<rparr>"
       and cb = 100 and months = 3 and model = LINEAR and lg = 2 and eg = 0
       and fl = exact_arith]
  by simp

end
